theory Spec2Isabelle
  imports Complex_Main "HOL-Library.Word"
begin

unbundle bit_operations_syntax

section \<open>Values of the host language\<close>

text \<open>
  The manager and the health-data context are TypeScript. A \<^verbatim>\<open>number\<close> is modelled as a
  rational: every number of the pipeline is an integer read from a byte buffer, such an
  integer divided by 10 or by 100, or the literal 0, and it is only ever compared with the
  thresholds 60, 100, 140, 90, 36, 37.5 and 95. A quotient \<open>raw / 10\<close> or \<open>raw / 100\<close> with an
  integer \<open>raw\<close> is either equal to such a threshold or at least 0.01 away from it, so the
  comparisons on rationals agree with the comparisons the host makes on its rounded
  quotients, and the quotients the claims name (1200 / 10, 800 / 10) are exact.
  A \<^verbatim>\<open>Date\<close> is its number of milliseconds since the epoch.
\<close>

type_synonym number = rat
type_synonym Date = int
type_synonym byte = "8 word"
type_synonym ArrayBuffer = "byte list"

datatype js_error = RangeError | Error string

subsection \<open>DataView\<close>

text \<open>
  The three getters of the host's \<^verbatim>\<open>DataView\<close> that the parsers call. A read that does not
  fit into the buffer throws a \<^verbatim>\<open>RangeError\<close>; the last argument is the \<^verbatim>\<open>littleEndian\<close>
  flag.
\<close>

definition getUint8 :: "ArrayBuffer \<Rightarrow> nat \<Rightarrow> js_error + nat" where
  "getUint8 view byteOffset =
     (if byteOffset + 1 \<le> length view then Inr (unat (view ! byteOffset))
      else Inl RangeError)"

definition getUint16 :: "ArrayBuffer \<Rightarrow> nat \<Rightarrow> bool \<Rightarrow> js_error + nat" where
  "getUint16 view byteOffset littleEndian =
     (if byteOffset + 2 \<le> length view then
        (let b0 = unat (view ! byteOffset); b1 = unat (view ! (byteOffset + 1))
         in Inr (if littleEndian then b0 + 256 * b1 else 256 * b0 + b1))
      else Inl RangeError)"

definition getInt32 :: "ArrayBuffer \<Rightarrow> nat \<Rightarrow> bool \<Rightarrow> js_error + int" where
  "getInt32 view byteOffset littleEndian =
     (if byteOffset + 4 \<le> length view then
        (let b0 = int (unat (view ! byteOffset));
             b1 = int (unat (view ! (byteOffset + 1)));
             b2 = int (unat (view ! (byteOffset + 2)));
             b3 = int (unat (view ! (byteOffset + 3)));
             u = (if littleEndian then b0 + 256 * b1 + 65536 * b2 + 16777216 * b3
                  else b3 + 256 * b2 + 65536 * b1 + 16777216 * b0)
         in Inr (if 2147483648 \<le> u then u - 4294967296 else u))
      else Inl RangeError)"

section \<open>Parsing of characteristic payloads\<close>

text \<open>\<^verbatim>\<open>parseHeartRate\<close>: the flag byte, then an 8-bit or a 16-bit little-endian value.\<close>

definition parseHeartRate :: "ArrayBuffer \<Rightarrow> js_error + number" where
  "parseHeartRate data =
     (case getUint8 data 0 of
        Inl e \<Rightarrow> Inl e
      | Inr flags \<Rightarrow>
          (let is16Bit = (flags AND 1 \<noteq> 0) in
           if is16Bit then
             (case getUint16 data 1 True of Inl e \<Rightarrow> Inl e | Inr v \<Rightarrow> Inr (of_nat v))
           else
             (case getUint8 data 1 of Inl e \<Rightarrow> Inl e | Inr v \<Rightarrow> Inr (of_nat v))))"

record BloodPressure =
  systolic :: number
  diastolic :: number

definition parseBloodPressure :: "ArrayBuffer \<Rightarrow> js_error + BloodPressure" where
  "parseBloodPressure data =
     (case getUint8 data 0 of
        Inl e \<Rightarrow> Inl e
      | Inr flags \<Rightarrow>
          (case getUint16 data 1 True of
             Inl e \<Rightarrow> Inl e
           | Inr s \<Rightarrow>
               (case getUint16 data 3 True of
                  Inl e \<Rightarrow> Inl e
                | Inr d \<Rightarrow> Inr \<lparr>systolic = of_nat s / 10, diastolic = of_nat d / 10\<rparr>)))"

definition parseTemperature :: "ArrayBuffer \<Rightarrow> js_error + number" where
  "parseTemperature data =
     (case getInt32 data 0 True of Inl e \<Rightarrow> Inl e | Inr t \<Rightarrow> Inr (of_int t / 100))"

definition parseOxygenSaturation :: "ArrayBuffer \<Rightarrow> js_error + number" where
  "parseOxygenSaturation data =
     (case getUint8 data 0 of Inl e \<Rightarrow> Inl e | Inr v \<Rightarrow> Inr (of_nat v))"

definition parseBatteryLevel :: "ArrayBuffer \<Rightarrow> js_error + number" where
  "parseBatteryLevel data =
     (case getUint8 data 0 of Inl e \<Rightarrow> Inl e | Inr v \<Rightarrow> Inr (of_nat v))"

text \<open>
  How a peripheral lays an integer out on the wire: least significant byte first. These
  two encoders are not part of the application; the parsing theorems are stated over them.
\<close>

definition le16 :: "nat \<Rightarrow> ArrayBuffer" where
  "le16 n = [of_nat (n mod 256), of_nat (n div 256 mod 256)]"

definition le32 :: "int \<Rightarrow> ArrayBuffer" where
  "le32 i =
     (let u = nat (i mod 4294967296)
      in [of_nat (u mod 256), of_nat (u div 256 mod 256),
          of_nat (u div 65536 mod 256), of_nat (u div 16777216 mod 256)])"


section \<open>The Bluetooth manager\<close>

text \<open>
  The model follows \<^verbatim>\<open>src/services/bluetooth/manager.ts\<close>, the manager written against
  \<^verbatim>\<open>expo-bluetooth\<close>. The repository holds a second manager, written against
  \<^verbatim>\<open>react-native-ble-plx\<close> (the class \<^verbatim>\<open>BluetoothManager\<close> that follows the permission
  helpers of \<^verbatim>\<open>services/bluetooth/permissions.ts\<close>), with the same parsers, the same
  reconnection code and its own \<^verbatim>\<open>disconnectFromDevice\<close>, which is modelled further down
  under the name \<open>disconnectFromDevice_plx\<close>.
\<close>

subsection \<open>Data\<close>

text \<open>
  The interfaces of the source, field by field. Left out are the optional fields that no
  operation modelled here reads or writes: \<^verbatim>\<open>manufacturerData\<close>, \<^verbatim>\<open>batteryLevel\<close> and
  \<^verbatim>\<open>firmwareVersion\<close> of a device, the descriptors of a characteristic and the
  \<^verbatim>\<open>acceleration\<close> of a packet.
\<close>

datatype ConnectionState =
  Disconnected | Scanning | Connecting | Connected | Disconnecting | ErrorState

record BluetoothDevice =
  device_id :: string
  device_name :: string
  localName :: "string option"
  rssi :: "int option"
  serviceUUIDs :: "string list option"
  isConnectable :: "bool option"

record CharacteristicProperties =
  prop_read :: bool
  prop_write :: bool
  prop_notify :: bool
  prop_indicate :: bool

record BluetoothCharacteristic =
  char_uuid :: string
  properties :: CharacteristicProperties
  char_value :: "ArrayBuffer option"

record BluetoothService =
  service_uuid :: string
  isPrimary :: bool
  service_characteristics :: "BluetoothCharacteristic list"

record ConnectedDevice = BluetoothDevice +
  connected :: bool
  services :: "BluetoothService list"
  characteristics :: "BluetoothCharacteristic list"
  lastSeen :: Date

record HealthDataPacket =
  heartRate :: number
  bloodPressureSystolic :: number
  bloodPressureDiastolic :: number
  temperature :: number
  oxygenLevel :: number
  batteryLevel :: number
  timestamp :: Date
  deviceId :: string

text \<open>
  \<^verbatim>\<open>Partial<HealthDataPacket>\<close>, as the notification handler fills it: a key is present
  once it has been assigned, whatever the value.
\<close>

record PartialHealthData =
  p_heartRate :: "number option"
  p_bloodPressureSystolic :: "number option"
  p_bloodPressureDiastolic :: "number option"
  p_temperature :: "number option"
  p_oxygenLevel :: "number option"
  p_batteryLevel :: "number option"

definition HEART_RATE_MEASUREMENT :: string where
  "HEART_RATE_MEASUREMENT = ''00002a37-0000-1000-8000-00805f9b34fb''"

definition BLOOD_PRESSURE_MEASUREMENT :: string where
  "BLOOD_PRESSURE_MEASUREMENT = ''00002a35-0000-1000-8000-00805f9b34fb''"

definition TEMPERATURE_MEASUREMENT :: string where
  "TEMPERATURE_MEASUREMENT = ''00002a1c-0000-1000-8000-00805f9b34fb''"

definition OXYGEN_SATURATION :: string where
  "OXYGEN_SATURATION = ''00002a5e-0000-1000-8000-00805f9b34fb''"

definition BATTERY_LEVEL :: string where
  "BATTERY_LEVEL = ''00002a19-0000-1000-8000-00805f9b34fb''"

text \<open>The six events of \<^verbatim>\<open>BluetoothEvents\<close>, each with the argument it is emitted with.\<close>

datatype event =
    OnDeviceDiscovered BluetoothDevice
  | OnDeviceConnected ConnectedDevice
  | OnDeviceDisconnected string
  | OnHealthDataReceived HealthDataPacket
  | OnConnectionStateChanged ConnectionState
  | OnError js_error

text \<open>
  What the manager does to the world outside of its own fields, in the order in which it
  does it: calls of \<^verbatim>\<open>emit\<close>, lines written to the console, calls into the transport
  library and timers handed to the host.
\<close>

datatype transport_call =
    StartScanningAsync
  | StopScanningAsync
  | RemoveScanSubscription
  | AddDeviceDiscoveredListener
  | ConnectToDeviceAsync string
  | DiscoverAllServicesAndCharacteristicsAsync string
  | StartNotificationsAsync string
  | AddCharacteristicValueChangedListener
  | DisconnectFromDeviceAsync string
  | RemoveNotificationSubscription string
  | CancelDeviceConnection string

datatype timer = StopScanningTimer | ReconnectTimer

datatype effect =
    Emit event
  | ConsoleLog string
  | ConsoleError string js_error
  | Transport transport_call
  | SetTimeout timer nat

text \<open>
  The fields of the class. \<open>scanSubscription\<close> is the truthiness of the stored handle;
  \<open>reconnectTimeout\<close> holds the delay of the timer stored last. The two listener counters
  stand for the callbacks the manager has handed to the transport library and never takes
  back. \<open>notificationSubscriptions\<close> (the keys of the map) exists in the
  \<^verbatim>\<open>react-native-ble-plx\<close> manager only. \<open>effects\<close> is the history defined above.
\<close>

record BluetoothManager =
  connectionState :: ConnectionState
  connectedDevice :: "ConnectedDevice option"
  scanSubscription :: bool
  isScanning :: bool
  reconnectAttempts :: nat
  maxReconnectAttempts :: nat
  reconnectTimeout :: "nat option"
  deviceDiscoveredListeners :: nat
  characteristicValueChangedListeners :: nat
  notificationSubscriptions :: "string list"
  effects :: "effect list"

definition initialManager :: BluetoothManager where
  "initialManager =
     \<lparr>connectionState = Disconnected, connectedDevice = None, scanSubscription = False,
      isScanning = False, reconnectAttempts = 0, maxReconnectAttempts = 3,
      reconnectTimeout = None, deviceDiscoveredListeners = 0,
      characteristicValueChangedListeners = 0, notificationSubscriptions = [],
      effects = []\<rparr>"

subsection \<open>Events and the connection state\<close>

definition perform :: "effect \<Rightarrow> BluetoothManager \<Rightarrow> BluetoothManager" where
  "perform e s = s\<lparr>effects := effects s @ [e]\<rparr>"

text \<open>
  \<^verbatim>\<open>emit\<close> calls the callback registered for the event, if there is one. The model
  records the call of \<^verbatim>\<open>emit\<close> itself; callbacks are taken to return normally.
\<close>

definition emit :: "event \<Rightarrow> BluetoothManager \<Rightarrow> BluetoothManager" where
  "emit ev s = perform (Emit ev) s"

definition setConnectionState :: "ConnectionState \<Rightarrow> BluetoothManager \<Rightarrow> BluetoothManager" where
  "setConnectionState state s =
     (if connectionState s \<noteq> state
      then emit (OnConnectionStateChanged state) (s\<lparr>connectionState := state\<rparr>)
      else s)"

subsection \<open>Permissions and scanning\<close>

text \<open>
  A call that the source awaits has an outcome: \<open>Inr v\<close> when it resolves with \<open>v\<close>,
  \<open>Inl e\<close> when it rejects with \<open>e\<close>. The outcome is an argument of the modelled
  operation. Calls that the source does not await (registering a listener, removing a
  subscription, starting the scan) are taken to return. An operation of the manager
  returns its own outcome together with the manager it leaves behind.

  The outcome of the platform's permission dialogue is the answer to "were all requested
  permissions granted?" (always \<open>Inr True\<close> on a platform without such permissions).
\<close>

definition requestPermissions ::
  "js_error + bool \<Rightarrow> BluetoothManager \<Rightarrow> bool \<times> BluetoothManager" where
  "requestPermissions platform s =
     (case platform of
        Inr granted \<Rightarrow> (granted, s)
      | Inl e \<Rightarrow>
          (False,
           emit (OnError e)
             (perform (ConsoleError ''Error requesting Bluetooth permissions:'' e) s)))"

definition checkPermissions ::
  "js_error + bool \<Rightarrow> BluetoothManager \<Rightarrow> bool \<times> BluetoothManager" where
  "checkPermissions platform s =
     (case platform of
        Inr granted \<Rightarrow> (granted, s)
      | Inl e \<Rightarrow> (False, perform (ConsoleError ''Error checking Bluetooth permissions:'' e) s))"

definition startScanning_catch ::
  "js_error \<Rightarrow> BluetoothManager \<Rightarrow> (js_error + unit) \<times> BluetoothManager" where
  "startScanning_catch e s =
     (Inl e,
      emit (OnError e)
        (setConnectionState ErrorState
           (perform (ConsoleError ''Error starting Bluetooth scan:'' e) s)))"

definition startScanning ::
  "nat \<Rightarrow> js_error + bool \<Rightarrow> js_error + bool \<Rightarrow> BluetoothManager
     \<Rightarrow> (js_error + unit) \<times> BluetoothManager" where
  "startScanning timeout checked requested s =
     (if isScanning s then
        (Inr (), perform (ConsoleLog ''Bluetooth scanning already in progress'') s)
      else
        (let (hasPermissions, s1) = checkPermissions checked s;
             (granted, s2) =
               (if \<not> hasPermissions then requestPermissions requested s1 else (True, s1))
         in if \<not> granted then
              startScanning_catch (Error ''Bluetooth permissions not granted'') s2
            else
              (let s3 = setConnectionState Scanning s2;
                   s4 = s3\<lparr>isScanning := True\<rparr>;
                   s5 = (perform (Transport StartScanningAsync) s4)\<lparr>scanSubscription := True\<rparr>;
                   s6 = perform (SetTimeout StopScanningTimer timeout) s5;
                   s7 = (perform (Transport AddDeviceDiscoveredListener) s6)
                          \<lparr>deviceDiscoveredListeners := Suc (deviceDiscoveredListeners s6)\<rparr>
               in (Inr (), s7))))"

text \<open>
  The discovery listener, called by the transport with an advertisement. The argument is
  the device record the listener builds, with \<^verbatim>\<open>'Unknown Device'\<close> already put in
  for a missing name.
\<close>

definition deviceDiscovered :: "BluetoothDevice \<Rightarrow> BluetoothManager \<Rightarrow> BluetoothManager" where
  "deviceDiscovered bluetoothDevice s = emit (OnDeviceDiscovered bluetoothDevice) s"

definition stopScanning ::
  "js_error + unit \<Rightarrow> BluetoothManager \<Rightarrow> (js_error + unit) \<times> BluetoothManager" where
  "stopScanning stopped s =
     (let s1 = (if scanSubscription s
                then (perform (Transport RemoveScanSubscription) s)\<lparr>scanSubscription := False\<rparr>
                else s);
          s2 = perform (Transport StopScanningAsync) s1
      in case stopped of
           Inl e \<Rightarrow>
             (Inr (),
              emit (OnError e) (perform (ConsoleError ''Error stopping Bluetooth scan:'' e) s2))
         | Inr _ \<Rightarrow>
             (let s3 = s2\<lparr>isScanning := False\<rparr>
              in (Inr (),
                  if connectionState s3 = Scanning then setConnectionState Disconnected s3
                  else s3)))"

subsection \<open>Handling of characteristic values\<close>

text \<open>A notification as the transport hands it over: the identifier and the value, if any.\<close>

record Characteristic =
  uuid :: string
  val :: "ArrayBuffer option"

definition emptyHealthData :: PartialHealthData where
  "emptyHealthData =
     \<lparr>p_heartRate = None, p_bloodPressureSystolic = None, p_bloodPressureDiastolic = None,
      p_temperature = None, p_oxygenLevel = None, p_batteryLevel = None\<rparr>"

text \<open>The \<^verbatim>\<open>switch\<close> of the handler: which parser fills which key.\<close>

definition parseCharacteristic :: "string \<Rightarrow> ArrayBuffer \<Rightarrow> js_error + PartialHealthData" where
  "parseCharacteristic u v =
     (if u = HEART_RATE_MEASUREMENT then
        (case parseHeartRate v of
           Inl e \<Rightarrow> Inl e
         | Inr hr \<Rightarrow> Inr (emptyHealthData\<lparr>p_heartRate := Some hr\<rparr>))
      else if u = BLOOD_PRESSURE_MEASUREMENT then
        (case parseBloodPressure v of
           Inl e \<Rightarrow> Inl e
         | Inr bp \<Rightarrow>
             Inr (emptyHealthData\<lparr>p_bloodPressureSystolic := Some (systolic bp),
                                   p_bloodPressureDiastolic := Some (diastolic bp)\<rparr>))
      else if u = TEMPERATURE_MEASUREMENT then
        (case parseTemperature v of
           Inl e \<Rightarrow> Inl e
         | Inr t \<Rightarrow> Inr (emptyHealthData\<lparr>p_temperature := Some t\<rparr>))
      else if u = OXYGEN_SATURATION then
        (case parseOxygenSaturation v of
           Inl e \<Rightarrow> Inl e
         | Inr ox \<Rightarrow> Inr (emptyHealthData\<lparr>p_oxygenLevel := Some ox\<rparr>))
      else if u = BATTERY_LEVEL then
        (case parseBatteryLevel v of
           Inl e \<Rightarrow> Inl e
         | Inr b \<Rightarrow> Inr (emptyHealthData\<lparr>p_batteryLevel := Some b\<rparr>))
      else Inr emptyHealthData)"

text \<open>\<^verbatim>\<open>Object.keys(healthData).length\<close>\<close>

definition keys :: "PartialHealthData \<Rightarrow> nat" where
  "keys h =
     length (filter (\<lambda>k. k \<noteq> None)
       [p_heartRate h, p_bloodPressureSystolic h, p_bloodPressureDiastolic h,
        p_temperature h, p_oxygenLevel h, p_batteryLevel h])"

text \<open>\<^verbatim>\<open>x || 0\<close> on an optional number, and \<^verbatim>\<open>this.connectedDevice?.id || ''\<close>.\<close>

definition orZero :: "number option \<Rightarrow> number" where
  "orZero x = (case x of None \<Rightarrow> 0 | Some v \<Rightarrow> (if v = 0 then 0 else v))"

definition idOrEmpty :: "ConnectedDevice option \<Rightarrow> string" where
  "idOrEmpty d = (case d of None \<Rightarrow> [] | Some dev \<Rightarrow> (if device_id dev = [] then [] else device_id dev))"

definition packetOf :: "PartialHealthData \<Rightarrow> Date \<Rightarrow> BluetoothManager \<Rightarrow> HealthDataPacket" where
  "packetOf healthData now s =
     \<lparr>heartRate = orZero (p_heartRate healthData),
      bloodPressureSystolic = orZero (p_bloodPressureSystolic healthData),
      bloodPressureDiastolic = orZero (p_bloodPressureDiastolic healthData),
      temperature = orZero (p_temperature healthData),
      oxygenLevel = orZero (p_oxygenLevel healthData),
      batteryLevel = orZero (p_batteryLevel healthData),
      timestamp = now,
      deviceId = idOrEmpty (connectedDevice s)\<rparr>"

text \<open>
  \<^verbatim>\<open>handleCharacteristicValue\<close>. The whole body is inside \<^verbatim>\<open>try\<close>; the \<^verbatim>\<open>catch\<close>
  writes to the console and emits \<^verbatim>\<open>onError\<close>. \<open>now\<close> is the clock at the call.
\<close>

definition handleCharacteristicValue ::
  "Characteristic \<Rightarrow> Date \<Rightarrow> BluetoothManager \<Rightarrow> (js_error + unit) \<times> BluetoothManager" where
  "handleCharacteristicValue characteristic now s =
     (case val characteristic of
        None \<Rightarrow> (Inr (), s)
      | Some v \<Rightarrow>
          (case parseCharacteristic (uuid characteristic) v of
             Inl e \<Rightarrow>
               (Inr (),
                emit (OnError e)
                  (perform (ConsoleError ''Error handling characteristic value:'' e) s))
           | Inr healthData \<Rightarrow>
               (if keys healthData > 0
                then (Inr (), emit (OnHealthDataReceived (packetOf healthData now s)) s)
                else (Inr (), s))))"

subsection \<open>Connecting and disconnecting\<close>

definition setupHealthDataNotifications ::
  "string \<Rightarrow> js_error + unit \<Rightarrow> BluetoothManager \<Rightarrow> BluetoothManager" where
  "setupHealthDataNotifications devId notifying s =
     (let s1 = perform (Transport (StartNotificationsAsync devId)) s
      in case notifying of
           Inl e \<Rightarrow>
             emit (OnError e)
               (perform (ConsoleError ''Error setting up health data notifications:'' e) s1)
         | Inr _ \<Rightarrow>
             (perform (Transport AddCharacteristicValueChangedListener) s1)
               \<lparr>characteristicValueChangedListeners :=
                  Suc (characteristicValueChangedListeners s1)\<rparr>)"

definition connectToDevice_catch ::
  "js_error \<Rightarrow> BluetoothManager \<Rightarrow> (js_error + ConnectedDevice) \<times> BluetoothManager" where
  "connectToDevice_catch e s =
     (Inl e,
      emit (OnError e)
        (setConnectionState ErrorState
           (perform (ConsoleError ''Error connecting to Bluetooth device:'' e) s)))"

text \<open>
  What the transport answers during one \<^verbatim>\<open>connectToDevice\<close>: the outcome of the
  connection, of the discovery (the services and the flat list of characteristics, already
  in the manager's own record types, which the source reaches by renaming fields) and of
  the start of the notifications, and the clock.
\<close>

record connecting =
  connection :: "js_error + unit"
  discovery :: "js_error + BluetoothService list \<times> BluetoothCharacteristic list"
  notifying :: "js_error + unit"
  clock :: Date

definition connectToDevice ::
  "string \<Rightarrow> connecting \<Rightarrow> BluetoothManager
     \<Rightarrow> (js_error + ConnectedDevice) \<times> BluetoothManager" where
  "connectToDevice devId t s =
     (let s1 = setConnectionState Connecting s;
          s2 = perform (Transport (ConnectToDeviceAsync devId)) s1
      in case connection t of
           Inl e \<Rightarrow> connectToDevice_catch e s2
         | Inr _ \<Rightarrow>
             (let s3 = perform (Transport (DiscoverAllServicesAndCharacteristicsAsync devId)) s2
              in case discovery t of
                   Inl e \<Rightarrow> connectToDevice_catch e s3
                 | Inr (svcs, chars) \<Rightarrow>
                     (let dev = \<lparr>device_id = devId, device_name = ''Health Monitor'',
                                 localName = None, rssi = None, serviceUUIDs = None,
                                 isConnectable = None, connected = True, services = svcs,
                                 characteristics = chars, lastSeen = clock t\<rparr>;
                          s4 = s3\<lparr>connectedDevice := Some dev\<rparr>;
                          s5 = setConnectionState Connected s4;
                          s6 = s5\<lparr>reconnectAttempts := 0\<rparr>;
                          s7 = setupHealthDataNotifications devId (notifying t) s6;
                          s8 = emit (OnDeviceConnected dev) s7
                      in (Inr dev, s8))))"

definition disconnectFromDevice_catch ::
  "js_error \<Rightarrow> BluetoothManager \<Rightarrow> (js_error + unit) \<times> BluetoothManager" where
  "disconnectFromDevice_catch e s =
     (Inl e,
      emit (OnError e)
        (setConnectionState ErrorState
           (perform (ConsoleError ''Error disconnecting from Bluetooth device:'' e) s)))"

text \<open>
  \<^verbatim>\<open>disconnectFromDevice\<close> of the \<^verbatim>\<open>expo-bluetooth\<close> manager. The argument of the
  \<^verbatim>\<open>onDeviceDisconnected\<close> event is read from \<^verbatim>\<open>this.connectedDevice\<close> after the field
  has been set to \<^verbatim>\<open>null\<close>.
\<close>

definition disconnectFromDevice ::
  "js_error + unit \<Rightarrow> BluetoothManager \<Rightarrow> (js_error + unit) \<times> BluetoothManager" where
  "disconnectFromDevice disconnecting s =
     (case connectedDevice s of
        None \<Rightarrow> (Inr (), s)
      | Some dev \<Rightarrow>
          (let s1 = setConnectionState Disconnecting s;
               s2 = perform (Transport (DisconnectFromDeviceAsync (device_id dev))) s1
           in case disconnecting of
                Inl e \<Rightarrow> disconnectFromDevice_catch e s2
              | Inr _ \<Rightarrow>
                  (let s3 = s2\<lparr>connectedDevice := None\<rparr>;
                       s4 = setConnectionState Disconnected s3;
                       s5 = emit (OnDeviceDisconnected (idOrEmpty (connectedDevice s4))) s4
                   in (Inr (), s5))))"

text \<open>
  \<^verbatim>\<open>disconnectFromDevice\<close> of the \<^verbatim>\<open>react-native-ble-plx\<close> manager: it removes the
  notification subscriptions, keeps the identifier in a local constant before it clears
  the field, and emits the event with that constant.
\<close>

definition disconnectFromDevice_plx ::
  "js_error + unit \<Rightarrow> BluetoothManager \<Rightarrow> (js_error + unit) \<times> BluetoothManager" where
  "disconnectFromDevice_plx disconnecting s =
     (case connectedDevice s of
        None \<Rightarrow> (Inr (), s)
      | Some dev \<Rightarrow>
          (let s1 = setConnectionState Disconnecting s;
               s2 = foldl (\<lambda>m k. perform (Transport (RemoveNotificationSubscription k)) m) s1
                      (notificationSubscriptions s1);
               s3 = s2\<lparr>notificationSubscriptions := []\<rparr>;
               devId = device_id dev;
               s4 = perform (Transport (CancelDeviceConnection devId)) s3
           in case disconnecting of
                Inl e \<Rightarrow> disconnectFromDevice_catch e s4
              | Inr _ \<Rightarrow>
                  (let s5 = s4\<lparr>connectedDevice := None\<rparr>;
                       s6 = setConnectionState Disconnected s5;
                       s7 = emit (OnDeviceDisconnected devId) s6
                   in (Inr (), s7))))"

subsection \<open>Reconnection\<close>

text \<open>
  One call of \<^verbatim>\<open>attemptReconnect\<close>. The only call in it that can throw is inside
  \<^verbatim>\<open>try\<close>. The result says which delay, if any, the call has handed to \<^verbatim>\<open>setTimeout\<close>
  (in milliseconds). The line written to the console before the attempt carries the two
  counters in the source; the model keeps its fixed part.
\<close>

definition attemptReconnect ::
  "connecting \<Rightarrow> BluetoothManager \<Rightarrow> (js_error + nat option) \<times> BluetoothManager" where
  "attemptReconnect t s =
     (if reconnectAttempts s \<ge> maxReconnectAttempts s then
        (Inr None,
         setConnectionState Disconnected
           (perform (ConsoleLog ''Max reconnection attempts reached'') s))
      else
        (let s1 = s\<lparr>reconnectAttempts := reconnectAttempts s + 1\<rparr>;
             s2 = perform (ConsoleLog ''Reconnection attempt'') s1
         in case connectedDevice s2 of
              None \<Rightarrow> (Inr None, s2)
            | Some dev \<Rightarrow>
                (case connectToDevice (device_id dev) t s2 of
                   (Inr _, s3) \<Rightarrow> (Inr None, s3)
                 | (Inl e, s3) \<Rightarrow>
                     (let s4 = perform (ConsoleError ''Reconnection failed:'' e) s3;
                          delay = 2 ^ reconnectAttempts s4 * 1000;
                          s5 = (perform (SetTimeout ReconnectTimer delay) s4)
                                 \<lparr>reconnectTimeout := Some delay\<rparr>
                      in (Inr (Some delay), s5)))))"

text \<open>
  The chain of calls that one call of \<^verbatim>\<open>attemptReconnect\<close> starts: whenever a call has
  set a timer, the timer fires and calls \<^verbatim>\<open>attemptReconnect\<close> again. \<open>transport n\<close> is
  what the transport answers to the connection attempt made while the counter is \<open>n\<close>.
  The result lists the delays waited for, in order.
\<close>

definition fails :: "connecting \<Rightarrow> bool" where
  "fails t =
     (case connection t of
        Inl e \<Rightarrow> True
      | Inr u \<Rightarrow> (case discovery t of Inl e \<Rightarrow> True | Inr found \<Rightarrow> False))"

lemma perform_fields [simp]:
  "connectionState (perform e s) = connectionState s"
  "connectedDevice (perform e s) = connectedDevice s"
  "scanSubscription (perform e s) = scanSubscription s"
  "isScanning (perform e s) = isScanning s"
  "reconnectAttempts (perform e s) = reconnectAttempts s"
  "maxReconnectAttempts (perform e s) = maxReconnectAttempts s"
  "reconnectTimeout (perform e s) = reconnectTimeout s"
  "deviceDiscoveredListeners (perform e s) = deviceDiscoveredListeners s"
  "characteristicValueChangedListeners (perform e s) = characteristicValueChangedListeners s"
  "notificationSubscriptions (perform e s) = notificationSubscriptions s"
  "effects (perform e s) = effects s @ [e]"
  by (simp_all add: perform_def)

lemma emit_fields [simp]:
  "connectionState (emit ev s) = connectionState s"
  "connectedDevice (emit ev s) = connectedDevice s"
  "scanSubscription (emit ev s) = scanSubscription s"
  "isScanning (emit ev s) = isScanning s"
  "reconnectAttempts (emit ev s) = reconnectAttempts s"
  "maxReconnectAttempts (emit ev s) = maxReconnectAttempts s"
  "reconnectTimeout (emit ev s) = reconnectTimeout s"
  "deviceDiscoveredListeners (emit ev s) = deviceDiscoveredListeners s"
  "characteristicValueChangedListeners (emit ev s) = characteristicValueChangedListeners s"
  "notificationSubscriptions (emit ev s) = notificationSubscriptions s"
  "effects (emit ev s) = effects s @ [Emit ev]"
  by (simp_all add: emit_def)

lemma setConnectionState_fields [simp]:
  "connectionState (setConnectionState st s) = st"
  "connectedDevice (setConnectionState st s) = connectedDevice s"
  "scanSubscription (setConnectionState st s) = scanSubscription s"
  "isScanning (setConnectionState st s) = isScanning s"
  "reconnectAttempts (setConnectionState st s) = reconnectAttempts s"
  "maxReconnectAttempts (setConnectionState st s) = maxReconnectAttempts s"
  "reconnectTimeout (setConnectionState st s) = reconnectTimeout s"
  "deviceDiscoveredListeners (setConnectionState st s) = deviceDiscoveredListeners s"
  "characteristicValueChangedListeners (setConnectionState st s) =
     characteristicValueChangedListeners s"
  "notificationSubscriptions (setConnectionState st s) = notificationSubscriptions s"
  by (simp_all add: setConnectionState_def)

lemma setConnectionState_effects:
  "effects (setConnectionState st s) =
     effects s @ (if connectionState s \<noteq> st then [Emit (OnConnectionStateChanged st)] else [])"
  by (simp add: setConnectionState_def)

lemma connectToDevice_fails:
  assumes "fails t"
  shows "\<exists>e. fst (connectToDevice devId t s) = Inl e"
    and "connectionState (snd (connectToDevice devId t s)) = ErrorState"
    and "connectedDevice (snd (connectToDevice devId t s)) = connectedDevice s"
    and "reconnectAttempts (snd (connectToDevice devId t s)) = reconnectAttempts s"
    and "maxReconnectAttempts (snd (connectToDevice devId t s)) = maxReconnectAttempts s"
  using assms
  by (auto simp: fails_def connectToDevice_def connectToDevice_catch_def Let_def
           split: sum.splits)

lemma connectToDevice_rejects:
  assumes "connectToDevice devId t s = (Inl e, s')"
  shows "fails t"
    and "reconnectAttempts s' = reconnectAttempts s"
    and "maxReconnectAttempts s' = maxReconnectAttempts s"
  using assms
  by (auto simp: fails_def connectToDevice_def connectToDevice_catch_def Let_def
           split: sum.splits prod.splits)

lemma attemptReconnect_timer:
  assumes "attemptReconnect t s = (Inr (Some delay), s')"
  shows "reconnectAttempts s < maxReconnectAttempts s"
    and "reconnectAttempts s' = Suc (reconnectAttempts s)"
    and "maxReconnectAttempts s' = maxReconnectAttempts s"
  using assms
  by (auto simp: attemptReconnect_def Let_def
           split: if_splits option.splits prod.splits sum.splits
           dest: connectToDevice_rejects)

function reconnecting ::
  "(nat \<Rightarrow> connecting) \<Rightarrow> BluetoothManager \<Rightarrow> nat list \<times> BluetoothManager" where
  "reconnecting transport s =
     (case attemptReconnect (transport (Suc (reconnectAttempts s))) s of
        (Inr (Some delay), s') \<Rightarrow>
          (let (delays, s'') = reconnecting transport s' in (delay # delays, s''))
      | (_, s') \<Rightarrow> ([], s'))"
  by pat_completeness auto
termination
proof (relation "measure (\<lambda>(transport, s). maxReconnectAttempts s - reconnectAttempts s)")
  show "wf (measure (\<lambda>(transport, s). maxReconnectAttempts s - reconnectAttempts s))"
    by simp
next
  fix transport s x1 s' x1a x2
  assume "(x1, s') = attemptReconnect (transport (Suc (reconnectAttempts s))) s"
    and "x1 = Inr x1a" and "x1a = Some x2"
  then have "attemptReconnect (transport (Suc (reconnectAttempts s))) s = (Inr (Some x2), s')"
    by simp
  from attemptReconnect_timer[OF this]
  show "((transport, s'), (transport, s))
          \<in> measure (\<lambda>(transport, s). maxReconnectAttempts s - reconnectAttempts s)"
    by simp
qed

subsection \<open>Reachable states\<close>

text \<open>
  What can happen to the manager: a caller invokes one of the public operations (the scan
  timer is one of the callers of \<^verbatim>\<open>stopScanning\<close>), or the transport calls the listeners
  it has been given, each listener once. \<^verbatim>\<open>attemptReconnect\<close> is private and has no caller
  but its own timer, so it is not among the actions.
\<close>

datatype action =
    StartScanning nat "js_error + bool" "js_error + bool"
  | StopScanning "js_error + unit"
  | ConnectToDevice string connecting
  | DisconnectFromDevice "js_error + unit"
  | DeviceDiscovered BluetoothDevice
  | CharacteristicValueChanged Characteristic Date

fun step :: "action \<Rightarrow> BluetoothManager \<Rightarrow> BluetoothManager" where
  "step (StartScanning timeout checked requested) s =
     snd (startScanning timeout checked requested s)"
| "step (StopScanning stopped) s = snd (stopScanning stopped s)"
| "step (ConnectToDevice devId t) s = snd (connectToDevice devId t s)"
| "step (DisconnectFromDevice disconnecting) s = snd (disconnectFromDevice disconnecting s)"
| "step (DeviceDiscovered d) s = (deviceDiscovered d ^^ deviceDiscoveredListeners s) s"
| "step (CharacteristicValueChanged c now) s =
     ((\<lambda>m. snd (handleCharacteristicValue c now m)) ^^ characteristicValueChangedListeners s) s"

definition run :: "action list \<Rightarrow> BluetoothManager" where
  "run acts = foldl (\<lambda>s a. step a s) initialManager acts"

section \<open>The health-data context\<close>

record HealthData =
  cur_heartRate :: number
  cur_bloodPressureSystolic :: number
  cur_bloodPressureDiastolic :: number
  cur_temperature :: number
  cur_oxygenLevel :: number
  lastUpdated :: Date

record HistoricalData =
  h_timestamp :: Date
  h_heartRate :: number
  h_oxygenLevel :: number
  h_temperature :: number

text \<open>
  The state of the hook that the Bluetooth listeners write. \<open>alertTimers\<close> are the timers
  handed to \<^verbatim>\<open>setTimeout\<close> by \<^verbatim>\<open>checkForAlerts\<close> that have not fired yet, each given by
  the time at which it is due. The hook keeps no handle of them and never clears one.
\<close>

record HealthDataContext =
  isConnected :: bool
  hasAlerts :: bool
  currentData :: HealthData
  historicalData :: "HistoricalData list"
  connectedDeviceId :: "string option"
  alertTimers :: "Date list"

definition initialContext :: "Date \<Rightarrow> HealthDataContext" where
  "initialContext now =
     \<lparr>isConnected = False, hasAlerts = False,
      currentData = \<lparr>cur_heartRate = 0, cur_bloodPressureSystolic = 0,
                     cur_bloodPressureDiastolic = 0, cur_temperature = 0,
                     cur_oxygenLevel = 0, lastUpdated = now\<rparr>,
      historicalData = [], connectedDeviceId = None, alertTimers = []\<rparr>"

definition checkForAlerts ::
  "Date \<Rightarrow> HealthDataPacket \<Rightarrow> HealthDataContext \<Rightarrow> HealthDataContext" where
  "checkForAlerts now data c =
     (let alerts =
            (if heartRate data < 60 \<or> heartRate data > 100
             then [''Abnormal heart rate detected''] else [])
          @ (if bloodPressureSystolic data > 140 \<or> bloodPressureDiastolic data > 90
             then [''High blood pressure detected''] else [])
          @ (if temperature data < 36 \<or> temperature data > 75 / 2
             then [''Abnormal body temperature''] else [])
          @ (if oxygenLevel data < 95
             then [''Low oxygen saturation''] else [])
      in if length alerts > 0
         then c\<lparr>hasAlerts := True, alertTimers := alertTimers c @ [now + 10000]\<rparr>
         else c)"

text \<open>The listener for \<^verbatim>\<open>onHealthDataReceived\<close>; \<open>now\<close> is \<^verbatim>\<open>Date.now()\<close>.\<close>

definition onHealthDataReceived ::
  "Date \<Rightarrow> HealthDataPacket \<Rightarrow> HealthDataContext \<Rightarrow> HealthDataContext" where
  "onHealthDataReceived now data c =
     (let c1 = c\<lparr>currentData :=
                   \<lparr>cur_heartRate = heartRate data,
                    cur_bloodPressureSystolic = bloodPressureSystolic data,
                    cur_bloodPressureDiastolic = bloodPressureDiastolic data,
                    cur_temperature = temperature data,
                    cur_oxygenLevel = oxygenLevel data,
                    lastUpdated = timestamp data\<rparr>\<rparr>;
          newData = historicalData c1
                      @ [\<lparr>h_timestamp = timestamp data, h_heartRate = heartRate data,
                          h_oxygenLevel = oxygenLevel data, h_temperature = temperature data\<rparr>];
          twentyFourHoursAgo = now - 24 * 60 * 60 * 1000;
          c2 = c1\<lparr>historicalData :=
                    filter (\<lambda>item. h_timestamp item > twentyFourHoursAgo) newData\<rparr>
      in checkForAlerts now data c2)"

definition onConnectionStateChanged ::
  "ConnectionState \<Rightarrow> HealthDataContext \<Rightarrow> HealthDataContext" where
  "onConnectionStateChanged state c = c\<lparr>isConnected := (state = Connected)\<rparr>"

definition onDeviceConnected :: "ConnectedDevice \<Rightarrow> HealthDataContext \<Rightarrow> HealthDataContext" where
  "onDeviceConnected device c = c\<lparr>connectedDeviceId := Some (device_id device), isConnected := True\<rparr>"

definition onDeviceDisconnected :: "string \<Rightarrow> HealthDataContext \<Rightarrow> HealthDataContext" where
  "onDeviceDisconnected devId c =
     c\<lparr>connectedDeviceId := None, isConnected := False, hasAlerts := False\<rparr>"

text \<open>
  The clock reaches \<open>now\<close>: every pending timer that is due fires, and each one that fires
  runs \<^verbatim>\<open>setHasAlerts(false)\<close>.
\<close>

definition elapse :: "Date \<Rightarrow> HealthDataContext \<Rightarrow> HealthDataContext" where
  "elapse now c =
     (foldl (\<lambda>m due. m\<lparr>hasAlerts := False\<rparr>) c (filter (\<lambda>due. due \<le> now) (alertTimers c)))
       \<lparr>alertTimers := filter (\<lambda>due. \<not> due \<le> now) (alertTimers c)\<rparr>"

text \<open>A sequence of readings, each with the time at which the listener receives it.\<close>

fun receiving ::
  "(Date \<times> HealthDataPacket) list \<Rightarrow> HealthDataContext \<Rightarrow> HealthDataContext" where
  "receiving [] c = c"
| "receiving ((now, data) # rest) c = receiving rest (onHealthDataReceived now data (elapse now c))"

text \<open>Some clinical bound is violated: the condition under which \<^verbatim>\<open>checkForAlerts\<close> collects an alert.\<close>

definition violates :: "HealthDataPacket \<Rightarrow> bool" where
  "violates data =
     (heartRate data < 60 \<or> heartRate data > 100 \<or> bloodPressureSystolic data > 140
      \<or> bloodPressureDiastolic data > 90 \<or> temperature data < 36 \<or> temperature data > 75 / 2
      \<or> oxygenLevel data < 95)"

text \<open>
  The alert flag with a timer that is re-armed, written from the specification's words and
  used for comparison only: at time \<open>now\<close> the flag is set exactly when a reading that
  violates a bound has been received within the last ten seconds.
\<close>

definition rearmedFlag :: "(Date \<times> HealthDataPacket) list \<Rightarrow> Date \<Rightarrow> bool" where
  "rearmedFlag readings now =
     list_ex (\<lambda>(received, data). violates data \<and> received \<le> now \<and> now < received + 10000)
       readings"

section \<open>Auxiliary notions for the theorems\<close>

text \<open>Transport answers that let a connection attempt go through, and a heart-rate notification.\<close>

definition connectingOk :: connecting where
  "connectingOk =
     \<lparr>connection = Inr (), discovery = Inr ([], []), notifying = Inr (), clock = 1000\<rparr>"

definition hr72 :: Characteristic where
  "hr72 = \<lparr>uuid = HEART_RATE_MEASUREMENT, val = Some [0x00, 0x48]\<rparr>"

text \<open>
  \<open>guarded seen tr\<close>: every vitals reading emitted in the history \<open>tr\<close> comes after an
  emission of the state change to \<open>Connected\<close> (\<open>seen\<close> says that one precedes \<open>tr\<close>).
\<close>

definition isReading :: "effect \<Rightarrow> bool" where
  "isReading e = (case e of Emit (OnHealthDataReceived p) \<Rightarrow> True | _ \<Rightarrow> False)"

definition connectedSeen :: "effect list \<Rightarrow> bool" where
  "connectedSeen tr = (Emit (OnConnectionStateChanged Connected) \<in> set tr)"

fun guarded :: "bool \<Rightarrow> effect list \<Rightarrow> bool" where
  "guarded seen [] = True"
| "guarded seen (e # es) =
     (if e = Emit (OnConnectionStateChanged Connected) then guarded True es
      else (isReading e \<longrightarrow> seen) \<and> guarded seen es)"

definition listening :: "BluetoothManager \<Rightarrow> bool" where
  "listening s =
     (guarded False (effects s)
      \<and> (characteristicValueChangedListeners s > 0 \<longrightarrow> connectedSeen (effects s)))"

text \<open>Transport answers that make a connection attempt fail.\<close>

definition connectingFails :: connecting where
  "connectingFails =
     \<lparr>connection = Inl (Error ''Device unreachable''), discovery = Inr ([], []),
      notifying = Inr (), clock = 5000\<rparr>"

text \<open>The number of connection attempts the manager has made: its calls into the transport.\<close>

definition isConnectionAttempt :: "effect \<Rightarrow> bool" where
  "isConnectionAttempt e = (case e of Transport (ConnectToDeviceAsync d) \<Rightarrow> True | _ \<Rightarrow> False)"

definition connectionAttempts :: "BluetoothManager \<Rightarrow> nat" where
  "connectionAttempts s = length (filter isConnectionAttempt (effects s))"

text \<open>
  The timers of the reconnection code that the manager has set, the calls of
  \<^verbatim>\<open>connectToDevice\<close> among the actions of a caller, and the state of a manager whose
  reconnection code has never run.
\<close>

definition isReconnectTimer :: "effect \<Rightarrow> bool" where
  "isReconnectTimer e = (case e of SetTimeout ReconnectTimer d \<Rightarrow> True | _ \<Rightarrow> False)"

definition reconnectTimers :: "BluetoothManager \<Rightarrow> nat" where
  "reconnectTimers s = length (filter isReconnectTimer (effects s))"

definition isConnectToDevice :: "action \<Rightarrow> bool" where
  "isConnectToDevice a = (case a of ConnectToDevice d t \<Rightarrow> True | _ \<Rightarrow> False)"

definition idle :: "BluetoothManager \<Rightarrow> bool" where
  "idle s = (reconnectAttempts s = 0 \<and> reconnectTimeout s = None \<and> reconnectTimers s = 0)"

text \<open>A reading received at time \<open>t\<close> with every vital in range but the oxygen saturation \<open>ox\<close>.\<close>

definition reading :: "Date \<Rightarrow> number \<Rightarrow> HealthDataPacket" where
  "reading t ox =
     \<lparr>heartRate = 72, bloodPressureSystolic = 120, bloodPressureDiastolic = 80,
      temperature = 183 / 5, oxygenLevel = ox, batteryLevel = 90, timestamp = t,
      deviceId = ''bracelet''\<rparr>"

section \<open>Parsing: heart rate, blood pressure, temperature\<close>

lemma le16_value:
  fixes n :: nat
  assumes "n < 65536"
  shows "n mod 256 + 256 * (n div 256 mod 256) = n"
proof -
  have "n div 256 < 256" using assms by (simp add: less_mult_imp_div_less)
  then show ?thesis by simp
qed

lemma flag_bit: "(unat (flags :: byte) AND 1 \<noteq> 0) = bit flags 0"
proof -
  have a: "(unat flags AND 1 \<noteq> 0) = odd (unat flags)"
    by (simp add: and_one_eq mod_2_eq_odd)
  have b: "odd (unat flags) = bit (unat flags) 0"
    by (simp only: bit_0)
  have c: "bit (unat flags) 0 = bit flags 0"
    by (simp add: bit_unsigned_iff)
  show ?thesis by (simp only: a b c)
qed

lemma parseHeartRate_16bit:
  assumes "bit flags 0" and "n < 65536"
  shows "parseHeartRate (flags # le16 n @ rest) = Inr (of_nat n)"
  using le16_value[OF assms(2)] flag_bit[of flags] assms(1)
  by (simp add: parseHeartRate_def getUint8_def getUint16_def le16_def unat_of_nat Let_def)

lemma parseHeartRate_8bit:
  assumes "\<not> bit flags 0"
  shows "parseHeartRate (flags # b # rest) = Inr (of_nat (unat b))"
  using flag_bit[of flags] assms
  by (simp add: parseHeartRate_def getUint8_def Let_def)

text \<open>
  C3. The lowest bit of the flag byte selects the width of the value. When it is set,
  \<^verbatim>\<open>parseHeartRate\<close> returns the 16-bit little-endian value of the two bytes after the flag
  byte, whatever that value is; when it is clear, it returns the one byte after the flag byte
  as an 8-bit value and ignores what follows. So the buffer \<open>[0x01, 0x48, 0x00]\<close> gives 72
  (0x0048) and the buffer \<open>[0x00, 0x48]\<close> gives 72; with a high byte of 1 the 16-bit read
  gives 328 and the 8-bit read still 72.
\<close>

theorem parseHeartRate_flag:
  "(bit flags 0 \<and> n < 65536 \<longrightarrow>
      parseHeartRate (flags # le16 n @ rest) = Inr (of_nat n))
   \<and> (\<not> bit flags 0 \<longrightarrow> parseHeartRate (flags # b # rest) = Inr (of_nat (unat b)))"
  by (simp add: parseHeartRate_16bit parseHeartRate_8bit)

theorem parseHeartRate_flag_witness:
  "parseHeartRate [0x01, 0x48, 0x00] = Inr 72 \<and> parseHeartRate [0x00, 0x48] = Inr 72
   \<and> parseHeartRate [0x01, 0x48, 0x01] = Inr 328 \<and> parseHeartRate [0x00, 0x48, 0x01] = Inr 72"
  using parseHeartRate_flag[of 1 72 "[]" 72] parseHeartRate_flag[of 0 72 "[]" 72]
        parseHeartRate_flag[of 1 328 "[]" 72] parseHeartRate_flag[of 0 328 "[0x01]" 72]
  by (simp add: le16_def)

lemma base256_digits:
  fixes a b c d e f u :: nat
  assumes "a + 256 * e = u" "b + 256 * f = e" "c + 256 * d = f"
  shows "a + 256 * b + 65536 * c + 16777216 * d = u"
  using assms by linarith

lemma le32_value:
  fixes u :: nat
  assumes "u < 4294967296"
  shows "int (u mod 256) + 256 * int (u div 256 mod 256) + 65536 * int (u div 65536 mod 256)
           + 16777216 * int (u div 16777216 mod 256) = int u"
proof -
  have q3: "u div 16777216 < 256" using assms by (simp add: less_mult_imp_div_less)
  have d2: "u div 65536 = u div 256 div 256" by (simp add: div_mult2_eq)
  have d3: "u div 16777216 = u div 65536 div 256" by (simp add: div_mult2_eq)
  have s3: "u div 65536 mod 256 + 256 * (u div 16777216) = u div 65536"
    unfolding d3 by simp
  have s2: "u div 256 mod 256 + 256 * (u div 65536) = u div 256"
    unfolding d2 by simp
  have s1: "u mod 256 + 256 * (u div 256) = u" by simp
  have q3': "u div 16777216 mod 256 = u div 16777216" using q3 by simp
  have "u mod 256 + 256 * (u div 256 mod 256) + 65536 * (u div 65536 mod 256)
           + 16777216 * (u div 16777216 mod 256) = u"
    unfolding q3' by (rule base256_digits[OF s1 s2 s3])
  then have "int (u mod 256 + 256 * (u div 256 mod 256) + 65536 * (u div 65536 mod 256)
           + 16777216 * (u div 16777216 mod 256)) = int u" by (rule arg_cong)
  then show ?thesis by (simp only: of_nat_add of_nat_mult of_nat_numeral)
qed

lemma unat_byte: "unat (of_nat (n mod 256) :: byte) = n mod 256"
  by (simp add: unat_of_nat)

lemma getInt32_bytes:
  "getInt32 (b0 # b1 # b2 # b3 # rest) 0 True =
     Inr (if 2147483648 \<le> int (unat b0) + 256 * int (unat b1) + 65536 * int (unat b2)
                 + 16777216 * int (unat b3)
          then int (unat b0) + 256 * int (unat b1) + 65536 * int (unat b2)
                 + 16777216 * int (unat b3) - 4294967296
          else int (unat b0) + 256 * int (unat b1) + 65536 * int (unat b2)
                 + 16777216 * int (unat b3))"
  by (simp add: getInt32_def Let_def)

lemma getInt32_le32:
  assumes "- 2147483648 \<le> t" "t < 2147483648"
  shows "getInt32 (le32 t @ rest) 0 True = Inr t"
proof -
  define u where "u = nat (t mod 4294967296)"
  have ub: "u < 4294967296" by (simp add: u_def)
  have iu: "int u = t mod 4294967296" by (simp add: u_def)
  have digits: "int (u mod 256) + 256 * int (u div 256 mod 256)
           + 65536 * int (u div 65536 mod 256)
           + 16777216 * int (u div 16777216 mod 256) = int u"
    by (rule le32_value[OF ub])
  have sign: "(if 2147483648 \<le> int u then int u - 4294967296 else int u) = t"
  proof (cases "0 \<le> t")
    case True
    then have "t mod 4294967296 = t" using assms by simp
    then show ?thesis using iu assms by simp
  next
    case False
    have "(t + 4294967296) mod 4294967296 = t + 4294967296"
      by (rule mod_pos_pos_trivial) (use assms False in simp_all)
    then have "t mod 4294967296 = t + 4294967296" by simp
    then show ?thesis using iu assms False by simp
  qed
  have bytes: "le32 t @ rest =
      of_nat (u mod 256) # of_nat (u div 256 mod 256) # of_nat (u div 65536 mod 256)
        # of_nat (u div 16777216 mod 256) # rest"
    by (simp add: le32_def Let_def u_def)
  have "getInt32 (le32 t @ rest) 0 True =
     Inr (if 2147483648 \<le> int u then int u - 4294967296 else int u)"
    unfolding bytes getInt32_bytes unat_byte digits ..
  then show ?thesis unfolding sign .
qed

lemma parseBloodPressure_le16:
  assumes "s < 65536" "d < 65536"
  shows "parseBloodPressure (flags # le16 s @ le16 d @ rest) =
           Inr \<lparr>systolic = of_nat s / 10, diastolic = of_nat d / 10\<rparr>"
  using le16_value[OF assms(1)] le16_value[OF assms(2)]
  by (simp add: parseBloodPressure_def getUint8_def getUint16_def le16_def unat_of_nat)

text \<open>
  C4. A blood-pressure payload is a flag byte followed by the systolic and the diastolic raw
  value, 16-bit little-endian at the offsets 1 and 3; \<^verbatim>\<open>parseBloodPressure\<close> returns each
  raw value divided by 10, so the raw values 1200 and 800 give 120 and 80 mmHg.
  \<^verbatim>\<open>parseTemperature\<close> returns the signed 32-bit little-endian raw value at offset 0
  divided by 100.
\<close>

theorem parseBloodPressure_parseTemperature_scaling:
  assumes "s < 65536" and "d < 65536" and "- 2147483648 \<le> t" and "t < 2147483648"
  shows "parseBloodPressure (flags # le16 s @ le16 d @ rest) =
           Inr \<lparr>systolic = of_nat s / 10, diastolic = of_nat d / 10\<rparr>
         \<and> parseTemperature (le32 t @ rest') = Inr (of_int t / 100)"
  using assms by (simp add: parseBloodPressure_le16 parseTemperature_def getInt32_le32)

theorem parseBloodPressure_parseTemperature_scaling_witness:
  "parseBloodPressure [0x00, 0xB0, 0x04, 0x20, 0x03] = Inr \<lparr>systolic = 120, diastolic = 80\<rparr>
   \<and> parseTemperature [0x4C, 0x0E, 0x00, 0x00] = Inr (183 / 5)"
  using parseBloodPressure_parseTemperature_scaling [of 1200 800 3660 0 "[]" "[]"]
  by (simp add: le16_def le32_def)

section \<open>Vitals readings and the connection state\<close>

lemma guarded_append:
  "guarded b (xs @ ys) = (guarded b xs \<and> guarded (b \<or> connectedSeen xs) ys)"
  by (induction xs arbitrary: b) (auto simp: connectedSeen_def isReading_def)

lemma guarded_snoc:
  "guarded b (xs @ [e]) = (guarded b xs \<and> (isReading e \<longrightarrow> b \<or> connectedSeen xs))"
  by (auto simp add: guarded_append isReading_def)

lemma guarded_split:
  "guarded b tr \<Longrightarrow> tr = pre @ Emit (OnHealthDataReceived p) # post \<Longrightarrow> b \<or> connectedSeen pre"
  by (simp add: guarded_append isReading_def)

lemma listening_update [simp]:
  "listening (s\<lparr>connectionState := a\<rparr>) = listening s"
  "listening (s\<lparr>connectedDevice := b\<rparr>) = listening s"
  "listening (s\<lparr>scanSubscription := c\<rparr>) = listening s"
  "listening (s\<lparr>isScanning := d\<rparr>) = listening s"
  "listening (s\<lparr>reconnectAttempts := e\<rparr>) = listening s"
  "listening (s\<lparr>reconnectTimeout := f\<rparr>) = listening s"
  "listening (s\<lparr>deviceDiscoveredListeners := g\<rparr>) = listening s"
  "listening (s\<lparr>notificationSubscriptions := h\<rparr>) = listening s"
  by (simp_all add: listening_def)

lemma listening_perform: "listening s \<Longrightarrow> \<not> isReading e \<Longrightarrow> listening (perform e s)"
  by (auto simp: listening_def guarded_snoc connectedSeen_def)

lemma listening_emit: "listening s \<Longrightarrow> \<not> isReading (Emit ev) \<Longrightarrow> listening (emit ev s)"
  by (simp add: emit_def listening_perform)

lemma listening_setConnectionState: "listening s \<Longrightarrow> listening (setConnectionState st s)"
  by (auto simp: setConnectionState_def isReading_def intro!: listening_emit)

lemma listening_startScanning: "listening s \<Longrightarrow> listening (snd (startScanning timeout checked requested s))"
  by (auto simp: startScanning_def startScanning_catch_def checkPermissions_def
        requestPermissions_def Let_def isReading_def
        intro!: listening_perform listening_emit listening_setConnectionState
        split: sum.splits prod.splits if_splits)

lemma listening_stopScanning: "listening s \<Longrightarrow> listening (snd (stopScanning stopped s))"
  by (auto simp: stopScanning_def Let_def isReading_def
        intro!: listening_perform listening_emit listening_setConnectionState
        split: sum.splits prod.splits if_splits)

lemma listening_disconnect: "listening s \<Longrightarrow> listening (snd (disconnectFromDevice d s))"
  by (auto simp: disconnectFromDevice_def disconnectFromDevice_catch_def Let_def isReading_def
        intro!: listening_perform listening_emit listening_setConnectionState
        split: sum.splits prod.splits if_splits option.splits)

lemma listening_connected:
  "listening s \<Longrightarrow> connectionState s \<noteq> Connected \<Longrightarrow>
   listening ((setConnectionState Connected s)\<lparr>characteristicValueChangedListeners := n\<rparr>)"
  by (auto simp: listening_def setConnectionState_def guarded_snoc connectedSeen_def isReading_def)

lemma seen_perform: "connectedSeen (effects s) \<Longrightarrow> connectedSeen (effects (perform e s))"
  by (simp add: connectedSeen_def)

lemma listening_seen:
  "listening s \<Longrightarrow> connectedSeen (effects s) \<Longrightarrow>
   listening (s\<lparr>characteristicValueChangedListeners := n\<rparr>)"
  by (simp add: listening_def)

lemma listening_setup:
  "listening s \<Longrightarrow> connectedSeen (effects s) \<Longrightarrow>
   listening (setupHealthDataNotifications devId n s)"
  by (auto simp: setupHealthDataNotifications_def Let_def isReading_def
        intro!: listening_perform listening_emit listening_seen seen_perform
        split: sum.splits)

lemma seen_setConnected:
  "connectionState s \<noteq> Connected \<Longrightarrow> connectedSeen (effects (setConnectionState Connected s))"
  by (simp add: setConnectionState_def connectedSeen_def)

lemma listening_connect: "listening s \<Longrightarrow> listening (snd (connectToDevice devId t s))"
  by (auto simp: connectToDevice_def connectToDevice_catch_def Let_def isReading_def
        intro!: listening_perform listening_emit listening_setConnectionState listening_setup
                seen_setConnected
        split: sum.splits prod.splits if_splits option.splits)

lemma listening_handle:
  "listening s \<Longrightarrow> characteristicValueChangedListeners s > 0 \<Longrightarrow>
   listening (snd (handleCharacteristicValue c now s))
   \<and> characteristicValueChangedListeners (snd (handleCharacteristicValue c now s))
       = characteristicValueChangedListeners s"
  by (auto simp: handleCharacteristicValue_def Let_def isReading_def listening_def
                 guarded_append connectedSeen_def
        split: sum.splits prod.splits if_splits option.splits)

lemma listening_handle_funpow:
  "listening s \<Longrightarrow> characteristicValueChangedListeners s > 0 \<Longrightarrow>
   listening (((\<lambda>m. snd (handleCharacteristicValue c now m)) ^^ n) s)
   \<and> characteristicValueChangedListeners (((\<lambda>m. snd (handleCharacteristicValue c now m)) ^^ n) s)
       = characteristicValueChangedListeners s"
  by (induction n) (auto simp: listening_handle)

lemma listening_discovered_funpow:
  "listening s \<Longrightarrow> listening ((deviceDiscovered d ^^ n) s)"
  by (induction n) (auto simp: deviceDiscovered_def isReading_def intro!: listening_emit)

lemma listening_step: "listening s \<Longrightarrow> listening (step a s)"
proof (cases a)
  case (CharacteristicValueChanged c now)
  assume l: "listening s"
  show ?thesis
  proof (cases "characteristicValueChangedListeners s")
    case 0
    then show ?thesis using l CharacteristicValueChanged by simp
  next
    case (Suc n)
    then have "characteristicValueChangedListeners s > 0" by simp
    from listening_handle_funpow[OF l this] show ?thesis
      using CharacteristicValueChanged by simp
  qed
qed (simp_all add: listening_startScanning listening_stopScanning listening_connect
       listening_disconnect listening_discovered_funpow)

lemma listening_initial: "listening initialManager"
  by (simp add: listening_def initialManager_def)

lemma listening_foldl: "listening s \<Longrightarrow> listening (foldl (\<lambda>s a. step a s) s acts)"
  by (induction acts arbitrary: s) (simp_all add: listening_step)

lemma run_snoc: "run (acts @ [a]) = step a (run acts)"
  by (simp add: run_def)

text \<open>
  C1, as the code has it. The handler of characteristic values does not look at the
  connection state. What holds in every reachable state: a vitals reading is emitted only
  after the manager has emitted the change of the connection state to \<open>Connected\<close> at least
  once, because the handler is handed to the transport only by a connection attempt that
  has got that far.
\<close>

theorem readings_after_connected:
  assumes "effects (run acts) = pre @ Emit (OnHealthDataReceived p) # post"
  shows "Emit (OnConnectionStateChanged Connected) \<in> set pre"
proof -
  have "listening (run acts)"
    unfolding run_def by (rule listening_foldl[OF listening_initial])
  then have "guarded False (effects (run acts))" by (simp add: listening_def)
  from guarded_split[OF this assms] show ?thesis by (simp add: connectedSeen_def)
qed

theorem readings_after_connected_witness:
  "effects (run [ConnectToDevice ''bracelet'' connectingOk,
                 CharacteristicValueChanged hr72 2000])
     = [Emit (OnConnectionStateChanged Connecting),
        Transport (ConnectToDeviceAsync ''bracelet''),
        Transport (DiscoverAllServicesAndCharacteristicsAsync ''bracelet''),
        Emit (OnConnectionStateChanged Connected),
        Transport (StartNotificationsAsync ''bracelet''),
        Transport AddCharacteristicValueChangedListener,
        Emit (OnDeviceConnected
          \<lparr>device_id = ''bracelet'', device_name = ''Health Monitor'', localName = None,
           rssi = None, serviceUUIDs = None, isConnectable = None, connected = True,
           services = [], characteristics = [], lastSeen = 1000\<rparr>)]
       @ Emit (OnHealthDataReceived
           \<lparr>heartRate = 72, bloodPressureSystolic = 0, bloodPressureDiastolic = 0,
            temperature = 0, oxygenLevel = 0, batteryLevel = 0, timestamp = 2000,
            deviceId = ''bracelet''\<rparr>) # []
   \<and> Emit (OnConnectionStateChanged Connected)
       \<in> set [Emit (OnConnectionStateChanged Connecting),
              Transport (ConnectToDeviceAsync ''bracelet''),
              Transport (DiscoverAllServicesAndCharacteristicsAsync ''bracelet''),
              Emit (OnConnectionStateChanged Connected),
              Transport (StartNotificationsAsync ''bracelet''),
              Transport AddCharacteristicValueChangedListener,
              Emit (OnDeviceConnected
                \<lparr>device_id = ''bracelet'', device_name = ''Health Monitor'', localName = None,
                 rssi = None, serviceUUIDs = None, isConnectable = None, connected = True,
                 services = [], characteristics = [], lastSeen = 1000\<rparr>)]"
proof -
  have run: "effects (run [ConnectToDevice ''bracelet'' connectingOk,
                      CharacteristicValueChanged hr72 2000])
        = [Emit (OnConnectionStateChanged Connecting),
            Transport (ConnectToDeviceAsync ''bracelet''),
            Transport (DiscoverAllServicesAndCharacteristicsAsync ''bracelet''),
            Emit (OnConnectionStateChanged Connected),
            Transport (StartNotificationsAsync ''bracelet''),
            Transport AddCharacteristicValueChangedListener,
            Emit (OnDeviceConnected
              \<lparr>device_id = ''bracelet'', device_name = ''Health Monitor'', localName = None,
               rssi = None, serviceUUIDs = None, isConnectable = None, connected = True,
               services = [], characteristics = [], lastSeen = 1000\<rparr>)]
          @ Emit (OnHealthDataReceived
              \<lparr>heartRate = 72, bloodPressureSystolic = 0, bloodPressureDiastolic = 0,
               temperature = 0, oxygenLevel = 0, batteryLevel = 0, timestamp = 2000,
               deviceId = ''bracelet''\<rparr>) # []"
    by (simp add: run_def Let_def connectToDevice_def
        connectingOk_def setupHealthDataNotifications_def initialManager_def
        handleCharacteristicValue_def hr72_def parseCharacteristic_def parseHeartRate_def
        getUint8_def HEART_RATE_MEASUREMENT_def keys_def emptyHealthData_def packetOf_def
        orZero_def idOrEmpty_def setConnectionState_def)
  from run readings_after_connected[OF run] show ?thesis by (rule conjI)
qed

text \<open>
  C1, as the claim states it, fails: a caller that starts a scan while a device is connected
  moves the connection state to \<open>Scanning\<close>, the listener stays with the transport, and
  the next heart-rate notification is emitted as a vitals reading in that state.
\<close>

theorem reading_emitted_while_scanning:
  "connectionState (run [ConnectToDevice ''bracelet'' connectingOk,
                         StartScanning 15000 (Inr True) (Inr True)]) = Scanning
   \<and> effects (step (CharacteristicValueChanged hr72 2000)
               (run [ConnectToDevice ''bracelet'' connectingOk,
                     StartScanning 15000 (Inr True) (Inr True)]))
     = effects (run [ConnectToDevice ''bracelet'' connectingOk,
                     StartScanning 15000 (Inr True) (Inr True)])
       @ [Emit (OnHealthDataReceived
            \<lparr>heartRate = 72, bloodPressureSystolic = 0, bloodPressureDiastolic = 0,
             temperature = 0, oxygenLevel = 0, batteryLevel = 0, timestamp = 2000,
             deviceId = ''bracelet''\<rparr>)]"
  by (simp add: run_def startScanning_def checkPermissions_def Let_def connectToDevice_def
        connectingOk_def setupHealthDataNotifications_def initialManager_def startScanning_catch_def
        handleCharacteristicValue_def hr72_def parseCharacteristic_def parseHeartRate_def
        getUint8_def HEART_RATE_MEASUREMENT_def keys_def emptyHealthData_def packetOf_def
        orZero_def idOrEmpty_def setConnectionState_def)

section \<open>Malformed payloads\<close>

lemma parseCharacteristic_RangeError:
  "parseCharacteristic u v = Inl e \<Longrightarrow> e = RangeError"
  by (auto simp: parseCharacteristic_def parseHeartRate_def parseBloodPressure_def
        parseTemperature_def parseOxygenSaturation_def parseBatteryLevel_def
        getUint8_def getUint16_def getInt32_def Let_def
        split: if_splits sum.splits)




section \<open>Stopping the scan\<close>

text \<open>
  C8, as the code has it. \<^verbatim>\<open>stopScanning\<close> never throws, whatever the transport answers.
  It leaves a connection state other than \<open>Scanning\<close> as it is. When the transport's
  \<^verbatim>\<open>stopScanningAsync\<close> resolves, it takes \<open>Scanning\<close> to \<open>Disconnected\<close>, a second call right
  after the first (by the caller or by the scan timer) repeats the call into the transport
  and changes nothing else, and after the two calls a manager that was scanning or
  disconnected is disconnected. When \<^verbatim>\<open>stopScanningAsync\<close> rejects, the error is written to
  the console and emitted, and the connection state and \<^verbatim>\<open>isScanning\<close> stay as they were.
\<close>

theorem stopScanning_states:
  "fst (stopScanning stopped s) = Inr ()
   \<and> (connectionState s \<noteq> Scanning \<longrightarrow>
        connectionState (snd (stopScanning stopped s)) = connectionState s)
   \<and> (connectionState s = Scanning \<longrightarrow>
        connectionState (snd (stopScanning (Inr ()) s)) = Disconnected)
   \<and> snd (stopScanning (Inr ()) (snd (stopScanning (Inr ()) s)))
        = perform (Transport StopScanningAsync) (snd (stopScanning (Inr ()) s))
   \<and> (connectionState s = Scanning \<or> connectionState s = Disconnected \<longrightarrow>
        connectionState (snd (stopScanning (Inr ()) (snd (stopScanning (Inr ()) s))))
          = Disconnected)
   \<and> connectionState (snd (stopScanning (Inl e) s)) = connectionState s
   \<and> isScanning (snd (stopScanning (Inl e) s)) = isScanning s
   \<and> effects (snd (stopScanning (Inl e) s))
        = effects s @ (if scanSubscription s then [Transport RemoveScanSubscription] else [])
            @ [Transport StopScanningAsync,
               ConsoleError ''Error stopping Bluetooth scan:'' e, Emit (OnError e)]"
  by (auto simp: stopScanning_def Let_def split: sum.splits)

theorem stopScanning_states_witness:
  "connectionState (run [StartScanning 15000 (Inr True) (Inr True)]) = Scanning
   \<and> fst (stopScanning (Inr ()) (run [StartScanning 15000 (Inr True) (Inr True)])) = Inr ()
   \<and> connectionState (snd (stopScanning (Inr ())
        (run [StartScanning 15000 (Inr True) (Inr True)]))) = Disconnected
   \<and> connectionState (snd (stopScanning (Inr ()) (snd (stopScanning (Inr ())
        (run [StartScanning 15000 (Inr True) (Inr True)]))))) = Disconnected
   \<and> connectionState (run [ConnectToDevice ''bracelet'' connectingOk]) = Connected
   \<and> connectionState (snd (stopScanning (Inr ())
        (run [ConnectToDevice ''bracelet'' connectingOk]))) = Connected
   \<and> connectionState (snd (stopScanning (Inl (Error ''scan not stopped''))
        (run [StartScanning 15000 (Inr True) (Inr True)]))) = Scanning"
  using stopScanning_states
          [of "Inr ()" "run [StartScanning 15000 (Inr True) (Inr True)]"
              "Error ''scan not stopped''"]
        stopScanning_states
          [of "Inr ()" "run [ConnectToDevice ''bracelet'' connectingOk]"
              "Error ''scan not stopped''"]
  by (simp add: run_def startScanning_def checkPermissions_def Let_def initialManager_def
        connectToDevice_def connectingOk_def setupHealthDataNotifications_def)

text \<open>
  C8, as the claim states it, fails: a manager that is scanning calls \<^verbatim>\<open>stopScanning\<close> twice
  in a row and the transport rejects \<^verbatim>\<open>stopScanningAsync\<close> both times. Neither call throws,
  but the connection state is still \<open>Scanning\<close>, not \<open>Disconnected\<close>.
\<close>

theorem stopScanning_rejected_stays_scanning:
  "connectionState
     (snd (stopScanning (Inl (Error ''scan not stopped''))
        (snd (stopScanning (Inl (Error ''scan not stopped''))
           (run [StartScanning 15000 (Inr True) (Inr True)]))))) = Scanning
   \<and> fst (stopScanning (Inl (Error ''scan not stopped''))
        (snd (stopScanning (Inl (Error ''scan not stopped''))
           (run [StartScanning 15000 (Inr True) (Inr True)])))) = Inr ()"
  by (simp add: stopScanning_def Let_def run_def startScanning_def checkPermissions_def
        initialManager_def)

section \<open>Disconnecting\<close>

lemma foldl_perform:
  "foldl (\<lambda>m k. perform (f k) m) s ks = s\<lparr>effects := effects s @ map f ks\<rparr>"
  by (induction ks arbitrary: s) (simp_all add: perform_def)

lemma disconnectFromDevice_no_device:
  "connectedDevice s = None \<Longrightarrow> disconnectFromDevice disconnecting s = (Inr (), s)"
  by (simp add: disconnectFromDevice_def)

lemma disconnectFromDevice_fields:
  assumes "connectedDevice s = Some dev"
  shows "fst (disconnectFromDevice (Inr ()) s) = Inr ()"
    and "connectedDevice (snd (disconnectFromDevice (Inr ()) s)) = None"
    and "connectionState (snd (disconnectFromDevice (Inr ()) s)) = Disconnected"
  using assms by (simp_all add: disconnectFromDevice_def Let_def)

text \<open>
  The \<^verbatim>\<open>react-native-ble-plx\<close> manager does what C7 says: with a device connected and the
  transport closing the connection, it removes the notification subscriptions, then cancels
  the connection, clears the device, becomes \<open>Disconnected\<close> and emits the event with the
  identifier of the device.
\<close>

lemma disconnectFromDevice_plx_event:
  assumes "connectedDevice s = Some dev" and "connectionState s = Connected"
  shows "fst (disconnectFromDevice_plx (Inr ()) s) = Inr ()"
   and "effects (snd (disconnectFromDevice_plx (Inr ()) s)) =
           effects s @ [Emit (OnConnectionStateChanged Disconnecting)]
             @ map (\<lambda>k. Transport (RemoveNotificationSubscription k)) (notificationSubscriptions s)
             @ [Transport (CancelDeviceConnection (device_id dev)),
                Emit (OnConnectionStateChanged Disconnected),
                Emit (OnDeviceDisconnected (device_id dev))]"
   and "connectedDevice (snd (disconnectFromDevice_plx (Inr ()) s)) = None"
   and "connectionState (snd (disconnectFromDevice_plx (Inr ()) s)) = Disconnected"
   and "notificationSubscriptions (snd (disconnectFromDevice_plx (Inr ()) s)) = []"
  using assms
  by (simp_all add: disconnectFromDevice_plx_def Let_def setConnectionState_effects
        foldl_perform)

text \<open>
  C7 on the \<^verbatim>\<open>expo-bluetooth\<close> manager. With a device connected and the transport closing
  the connection, everything the call does to the outside is: the state change to
  \<open>Disconnecting\<close>, the call that closes the connection, the state change to
  \<open>Disconnected\<close>, and the \<^verbatim>\<open>onDeviceDisconnected\<close> event, whose argument is the empty
  string and not the identifier of the device. No listener is taken back from the transport.
\<close>

theorem disconnectFromDevice_event:
  assumes "connectedDevice s = Some dev" and "connectionState s = Connected"
  shows "effects (snd (disconnectFromDevice (Inr ()) s)) =
           effects s @ [Emit (OnConnectionStateChanged Disconnecting),
                        Transport (DisconnectFromDeviceAsync (device_id dev)),
                        Emit (OnConnectionStateChanged Disconnected),
                        Emit (OnDeviceDisconnected [])]
         \<and> characteristicValueChangedListeners (snd (disconnectFromDevice (Inr ()) s))
             = characteristicValueChangedListeners s"
  using assms
  by (simp add: disconnectFromDevice_def Let_def setConnectionState_effects idOrEmpty_def)

theorem disconnectFromDevice_event_witness:
  "effects (snd (disconnectFromDevice (Inr ()) (run [ConnectToDevice ''bracelet'' connectingOk])))
     = effects (run [ConnectToDevice ''bracelet'' connectingOk])
       @ [Emit (OnConnectionStateChanged Disconnecting),
          Transport (DisconnectFromDeviceAsync ''bracelet''),
          Emit (OnConnectionStateChanged Disconnected),
          Emit (OnDeviceDisconnected [])]
   \<and> characteristicValueChangedListeners
        (snd (disconnectFromDevice (Inr ()) (run [ConnectToDevice ''bracelet'' connectingOk])))
      = 1"
  using disconnectFromDevice_event
          [of "run [ConnectToDevice ''bracelet'' connectingOk]"
              "\<lparr>device_id = ''bracelet'', device_name = ''Health Monitor'', localName = None,
                rssi = None, serviceUUIDs = None, isConnectable = None, connected = True,
                services = [], characteristics = [], lastSeen = 1000\<rparr>"]
  by (simp add: run_def Let_def initialManager_def connectToDevice_def connectingOk_def
        setupHealthDataNotifications_def)

section \<open>The reconnection policy\<close>

lemma connectionAttempts_simps [simp]:
  "connectionAttempts (perform e s) = connectionAttempts s + (if isConnectionAttempt e then 1 else 0)"
  "connectionAttempts (emit ev s) = connectionAttempts s"
  "connectionAttempts (setConnectionState st s) = connectionAttempts s"
  "connectionAttempts (s\<lparr>reconnectAttempts := n\<rparr>) = connectionAttempts s"
  "connectionAttempts (s\<lparr>reconnectTimeout := d\<rparr>) = connectionAttempts s"
  "connectionAttempts (s\<lparr>connectedDevice := dv\<rparr>) = connectionAttempts s"
  "connectionAttempts (s\<lparr>characteristicValueChangedListeners := l\<rparr>) = connectionAttempts s"
  by (simp_all add: connectionAttempts_def setConnectionState_effects isConnectionAttempt_def)

lemma connectToDevice_attempt:
  "connectionAttempts (snd (connectToDevice devId t s)) = Suc (connectionAttempts s)"
  by (auto simp: connectToDevice_def connectToDevice_catch_def Let_def
        setupHealthDataNotifications_def isConnectionAttempt_def
        split: sum.splits prod.splits)

lemma attemptReconnect_never_throws: "\<exists>r. fst (attemptReconnect t s) = Inr r"
  by (auto simp: attemptReconnect_def Let_def split: option.splits sum.splits prod.splits)

lemma attemptReconnect_gives_up:
  assumes "maxReconnectAttempts s \<le> reconnectAttempts s"
  shows "attemptReconnect t s =
           (Inr None, setConnectionState Disconnected
                        (perform (ConsoleLog ''Max reconnection attempts reached'') s))"
  using assms by (simp add: attemptReconnect_def)

lemma attemptReconnect_fails:
  assumes dev: "connectedDevice s = Some dev"
    and less: "reconnectAttempts s < maxReconnectAttempts s"
    and fails: "fails t"
  shows "\<exists>s'. attemptReconnect t s = (Inr (Some (2 ^ Suc (reconnectAttempts s) * 1000)), s')
           \<and> connectedDevice s' = Some dev
           \<and> reconnectAttempts s' = Suc (reconnectAttempts s)
           \<and> maxReconnectAttempts s' = maxReconnectAttempts s
           \<and> connectionAttempts s' = Suc (connectionAttempts s)"
proof -
  let ?s2 = "perform (ConsoleLog ''Reconnection attempt'')
               (s\<lparr>reconnectAttempts := reconnectAttempts s + 1\<rparr>)"
  obtain r s3 where c: "connectToDevice (device_id dev) t ?s2 = (r, s3)"
    by (cases "connectToDevice (device_id dev) t ?s2")
  from connectToDevice_fails[OF fails, of "device_id dev" ?s2] c
  obtain e where r: "r = Inl e"
    and s3: "connectedDevice s3 = Some dev" "reconnectAttempts s3 = Suc (reconnectAttempts s)"
            "maxReconnectAttempts s3 = maxReconnectAttempts s"
    using dev by auto
  from connectToDevice_attempt[of "device_id dev" t ?s2] c
  have a: "connectionAttempts s3 = Suc (connectionAttempts s)"
    by (simp add: isConnectionAttempt_def)
  have "attemptReconnect t s =
          (Inr (Some (2 ^ Suc (reconnectAttempts s) * 1000)),
           (perform (SetTimeout ReconnectTimer (2 ^ Suc (reconnectAttempts s) * 1000))
              (perform (ConsoleError ''Reconnection failed:'' e) s3))
             \<lparr>reconnectTimeout := Some (2 ^ Suc (reconnectAttempts s) * 1000)\<rparr>)"
    using dev less c r s3 by (simp add: attemptReconnect_def Let_def)
  then show ?thesis using s3 a by (simp add: isConnectionAttempt_def)
qed

lemma attemptReconnect_attempts:
  "connectionAttempts (snd (attemptReconnect t s))
     \<le> connectionAttempts s + (if reconnectAttempts s < maxReconnectAttempts s then 1 else 0)"
proof (cases "connectedDevice s")
  case None
  then show ?thesis by (simp add: attemptReconnect_def Let_def isConnectionAttempt_def)
next
  case (Some dev)
  let ?s2 = "perform (ConsoleLog ''Reconnection attempt'')
               (s\<lparr>reconnectAttempts := reconnectAttempts s + 1\<rparr>)"
  from connectToDevice_attempt[of "device_id dev" t ?s2]
  have "connectionAttempts (snd (connectToDevice (device_id dev) t ?s2))
          = Suc (connectionAttempts s)"
    by (simp add: isConnectionAttempt_def)
  then show ?thesis using Some
    by (auto simp: attemptReconnect_def Let_def isConnectionAttempt_def
             split: prod.splits sum.splits)
qed

lemma reconnecting_all_fail:
  assumes "\<forall>n. fails (transport n)"
  shows "connectedDevice s = Some dev \<Longrightarrow> reconnectAttempts s \<le> maxReconnectAttempts s \<Longrightarrow>
     fst (reconnecting transport s)
        = map (\<lambda>n. 2 ^ n * 1000) [Suc (reconnectAttempts s) ..< Suc (maxReconnectAttempts s)]
     \<and> connectionState (snd (reconnecting transport s)) = Disconnected
     \<and> connectionAttempts (snd (reconnecting transport s))
         = connectionAttempts s + (maxReconnectAttempts s - reconnectAttempts s)"
proof (induction "maxReconnectAttempts s - reconnectAttempts s" arbitrary: s)
  case 0
  then have "maxReconnectAttempts s \<le> reconnectAttempts s" by simp
  from attemptReconnect_gives_up[OF this] 0 show ?case
    by (simp add: isConnectionAttempt_def)
next
  case (Suc k)
  then have less: "reconnectAttempts s < maxReconnectAttempts s" by simp
  from assms have f: "fails (transport (Suc (reconnectAttempts s)))" by simp
  from attemptReconnect_fails[OF Suc.prems(1) less f]
  obtain s' where a: "attemptReconnect (transport (Suc (reconnectAttempts s))) s
                        = (Inr (Some (2 ^ Suc (reconnectAttempts s) * 1000)), s')"
    and s': "connectedDevice s' = Some dev" "reconnectAttempts s' = Suc (reconnectAttempts s)"
            "maxReconnectAttempts s' = maxReconnectAttempts s"
            "connectionAttempts s' = Suc (connectionAttempts s)"
    by blast
  have k: "k = maxReconnectAttempts s' - reconnectAttempts s'" using Suc.hyps(2) s' by simp
  have le: "reconnectAttempts s' \<le> maxReconnectAttempts s'" using less s' by simp
  note IH = Suc.hyps(1)[OF k s'(1) le]
  have unfold: "reconnecting transport s =
      (2 ^ Suc (reconnectAttempts s) * 1000 # fst (reconnecting transport s'),
       snd (reconnecting transport s'))"
    by (subst reconnecting.simps) (simp add: a split: prod.splits)
  have interval: "[Suc (reconnectAttempts s) ..< Suc (maxReconnectAttempts s)]
      = Suc (reconnectAttempts s) # [Suc (Suc (reconnectAttempts s)) ..< Suc (maxReconnectAttempts s)]"
    using less by (simp add: upt_conv_Cons)
  show ?case
    using IH less unfolding unfold interval by (simp add: s')
qed

lemma reconnecting_bound:
  "connectionAttempts (snd (reconnecting transport s))
     \<le> connectionAttempts s + (maxReconnectAttempts s - reconnectAttempts s)"
proof (induction transport s rule: reconnecting.induct)
  case (1 transport s)
  obtain r s' where a: "attemptReconnect (transport (Suc (reconnectAttempts s))) s = (r, s')"
    by (cases "attemptReconnect (transport (Suc (reconnectAttempts s))) s")
  from attemptReconnect_attempts[of "transport (Suc (reconnectAttempts s))" s] a
  have one: "connectionAttempts s'
     \<le> connectionAttempts s + (if reconnectAttempts s < maxReconnectAttempts s then 1 else 0)"
    by simp
  show ?case
  proof (cases "\<exists>delay. r = Inr (Some delay)")
    case True
    then obtain delay where r: "r = Inr (Some delay)" by blast
    from attemptReconnect_timer[OF a[unfolded r]]
    have t: "reconnectAttempts s < maxReconnectAttempts s"
            "reconnectAttempts s' = Suc (reconnectAttempts s)"
            "maxReconnectAttempts s' = maxReconnectAttempts s" .
    from "1.IH"[OF a[symmetric] r refl]
    have "connectionAttempts (snd (reconnecting transport s'))
            \<le> connectionAttempts s' + (maxReconnectAttempts s' - reconnectAttempts s')" .
    moreover have "reconnecting transport s =
        (delay # fst (reconnecting transport s'), snd (reconnecting transport s'))"
      by (subst reconnecting.simps) (simp add: a r split: prod.splits)
    ultimately show ?thesis using one t by simp
  next
    case False
    then have "reconnecting transport s = ([], s')"
      by (subst reconnecting.simps) (auto simp: a split: sum.splits option.splits)
    then show ?thesis using one by (simp split: if_splits)
  qed
qed

text \<open>
  What the reconnection code would do if it were called, in a state with a connected device
  and the counter at zero, when every connection attempt fails: three attempts, the first one
  at once, a timer of 2 s, 4 s and 8 s set after the first, second and third failed attempt,
  and at the call after the 8 s timer no attempt but the connection state \<open>Disconnected\<close>.
\<close>

lemma reconnecting_three_attempts:
  assumes "connectedDevice s = Some dev"
    and "reconnectAttempts s = 0" and "maxReconnectAttempts s = 3"
    and "\<forall>n. fails (transport n)"
  shows "fst (reconnecting transport s) = [2000, 4000, 8000]
         \<and> connectionAttempts (snd (reconnecting transport s)) = connectionAttempts s + 3
         \<and> connectionState (snd (reconnecting transport s)) = Disconnected
         \<and> connectionAttempts (snd (reconnecting answers s)) \<le> connectionAttempts s + 3
         \<and> (\<exists>r. fst (attemptReconnect t s') = Inr r)"
proof -
  have "[Suc 0 ..< Suc 3] = [1, 2, 3]" by (simp add: upt_conv_Cons)
  with reconnecting_all_fail[OF assms(4) assms(1)] assms(2,3)
  have "fst (reconnecting transport s) = [2000, 4000, 8000]
         \<and> connectionAttempts (snd (reconnecting transport s)) = connectionAttempts s + 3
         \<and> connectionState (snd (reconnecting transport s)) = Disconnected"
    by simp
  moreover from reconnecting_bound[of answers s] assms(2,3)
  have "connectionAttempts (snd (reconnecting answers s)) \<le> connectionAttempts s + 3" by simp
  ultimately show ?thesis using attemptReconnect_never_throws by blast
qed

lemma reconnecting_order:
  "filter (\<lambda>e. isConnectionAttempt e \<or> isReconnectTimer e
                \<or> e = Emit (OnConnectionStateChanged Disconnected))
     (drop (length (effects (run [ConnectToDevice ''bracelet'' connectingOk])))
        (effects (snd (reconnecting (\<lambda>n. connectingFails)
                         (run [ConnectToDevice ''bracelet'' connectingOk])))))
   = [Transport (ConnectToDeviceAsync ''bracelet''), SetTimeout ReconnectTimer 2000,
      Transport (ConnectToDeviceAsync ''bracelet''), SetTimeout ReconnectTimer 4000,
      Transport (ConnectToDeviceAsync ''bracelet''), SetTimeout ReconnectTimer 8000,
      Emit (OnConnectionStateChanged Disconnected)]"
  by (simp add: run_def Let_def initialManager_def connectToDevice_def connectingOk_def
        setupHealthDataNotifications_def connectingFails_def attemptReconnect_def
        connectToDevice_catch_def isConnectionAttempt_def isReconnectTimer_def
        setConnectionState_def emit_def perform_def)

lemma reconnectTimers_simps [simp]:
  "reconnectTimers (perform e s) = reconnectTimers s + (if isReconnectTimer e then 1 else 0)"
  "reconnectTimers (emit ev s) = reconnectTimers s"
  "reconnectTimers (setConnectionState st s) = reconnectTimers s"
  "reconnectTimers (s\<lparr>reconnectAttempts := n\<rparr>) = reconnectTimers s"
  "reconnectTimers (s\<lparr>connectedDevice := dv\<rparr>) = reconnectTimers s"
  "reconnectTimers (s\<lparr>characteristicValueChangedListeners := l\<rparr>) = reconnectTimers s"
  "reconnectTimers (s\<lparr>deviceDiscoveredListeners := l\<rparr>) = reconnectTimers s"
  "reconnectTimers (s\<lparr>isScanning := b\<rparr>) = reconnectTimers s"
  "reconnectTimers (s\<lparr>scanSubscription := b\<rparr>) = reconnectTimers s"
  by (simp_all add: reconnectTimers_def setConnectionState_effects isReconnectTimer_def)

lemma connectionAttempts_scanning [simp]:
  "connectionAttempts (s\<lparr>deviceDiscoveredListeners := l\<rparr>) = connectionAttempts s"
  "connectionAttempts (s\<lparr>isScanning := b\<rparr>) = connectionAttempts s"
  "connectionAttempts (s\<lparr>scanSubscription := b\<rparr>) = connectionAttempts s"
  by (simp_all add: connectionAttempts_def)

lemma idle_startScanning:
  "idle s \<Longrightarrow> idle (snd (startScanning timeout checked requested s))
     \<and> connectionAttempts (snd (startScanning timeout checked requested s)) = connectionAttempts s"
  by (auto simp: idle_def startScanning_def startScanning_catch_def checkPermissions_def
        requestPermissions_def Let_def isReconnectTimer_def isConnectionAttempt_def
        split: sum.splits prod.splits if_splits)

lemma idle_stopScanning:
  "idle s \<Longrightarrow> idle (snd (stopScanning stopped s))
     \<and> connectionAttempts (snd (stopScanning stopped s)) = connectionAttempts s"
  by (auto simp: idle_def stopScanning_def Let_def isReconnectTimer_def isConnectionAttempt_def
        split: sum.splits)

lemma idle_disconnect:
  "idle s \<Longrightarrow> idle (snd (disconnectFromDevice d s))
     \<and> connectionAttempts (snd (disconnectFromDevice d s)) = connectionAttempts s"
  by (auto simp: idle_def disconnectFromDevice_def disconnectFromDevice_catch_def Let_def
        isReconnectTimer_def isConnectionAttempt_def
        split: sum.splits option.splits)

lemma idle_connect:
  "idle s \<Longrightarrow> idle (snd (connectToDevice devId t s))"
  by (auto simp: idle_def connectToDevice_def connectToDevice_catch_def Let_def
        setupHealthDataNotifications_def isReconnectTimer_def
        split: sum.splits prod.splits)

lemma idle_handle:
  "idle s \<Longrightarrow> idle (snd (handleCharacteristicValue c now s))
     \<and> connectionAttempts (snd (handleCharacteristicValue c now s)) = connectionAttempts s"
  by (auto simp: idle_def handleCharacteristicValue_def isReconnectTimer_def
        isConnectionAttempt_def split: sum.splits option.splits)

lemma idle_handle_funpow:
  "idle s \<Longrightarrow> idle (((\<lambda>m. snd (handleCharacteristicValue c now m)) ^^ n) s)
     \<and> connectionAttempts (((\<lambda>m. snd (handleCharacteristicValue c now m)) ^^ n) s)
         = connectionAttempts s"
  by (induction n) (auto simp: idle_handle)

lemma idle_discovered_funpow:
  "idle s \<Longrightarrow> idle ((deviceDiscovered d ^^ n) s)
     \<and> connectionAttempts ((deviceDiscovered d ^^ n) s) = connectionAttempts s"
  by (induction n) (auto simp: idle_def deviceDiscovered_def)

lemma idle_step:
  "idle s \<Longrightarrow> idle (step a s)
     \<and> connectionAttempts (step a s)
         = connectionAttempts s + (if isConnectToDevice a then 1 else 0)"
  by (cases a)
     (simp_all add: idle_startScanning idle_stopScanning idle_disconnect idle_connect
        idle_handle_funpow idle_discovered_funpow connectToDevice_attempt isConnectToDevice_def)

lemma idle_foldl:
  "idle s \<Longrightarrow> idle (foldl (\<lambda>s a. step a s) s acts)
     \<and> connectionAttempts (foldl (\<lambda>s a. step a s) s acts)
         = connectionAttempts s + length (filter isConnectToDevice acts)"
  by (induction acts arbitrary: s) (simp_all add: idle_step)

text \<open>
  C2 on the code. The loss of the connection is an event of the transport for which the
  manager gives the transport no listener, and \<^verbatim>\<open>attemptReconnect\<close> is called by nothing but
  the timer it sets itself. So whatever callers and transport do, and therefore also after
  the connection to a connected device has been lost, the manager has made no reconnection
  attempt: the attempt counter is 0, no reconnection timer has ever been set, and the manager
  has asked the transport for a connection exactly once for each call of
  \<^verbatim>\<open>connectToDevice\<close> by a caller. The connection state is changed by the operations of
  the callers only, so it stays \<open>Connected\<close> after the loss.
\<close>

theorem reconnect_never_started:
  "reconnectAttempts (run acts) = 0 \<and> reconnectTimeout (run acts) = None
   \<and> reconnectTimers (run acts) = 0
   \<and> connectionAttempts (run acts) = length (filter isConnectToDevice acts)"
proof -
  have "idle initialManager" "connectionAttempts initialManager = 0"
    by (simp_all add: idle_def initialManager_def reconnectTimers_def connectionAttempts_def)
  with idle_foldl[of initialManager acts] show ?thesis
    by (simp add: run_def idle_def)
qed

section \<open>The rolling history\<close>

lemma checkForAlerts_violates:
  "checkForAlerts now data c =
     (if violates data
      then c\<lparr>hasAlerts := True, alertTimers := alertTimers c @ [now + 10000]\<rparr> else c)"
  by (auto simp: checkForAlerts_def violates_def Let_def)

lemma onHealthDataReceived_history:
  "historicalData (onHealthDataReceived now data c) =
     filter (\<lambda>item. h_timestamp item > now - 86400000)
       (historicalData c @ [\<lparr>h_timestamp = timestamp data, h_heartRate = heartRate data,
                          h_oxygenLevel = oxygenLevel data, h_temperature = temperature data\<rparr>])"
  by (simp add: onHealthDataReceived_def Let_def checkForAlerts_violates)

lemma foldl_clear:
  "foldl (\<lambda>m due. m\<lparr>hasAlerts := False\<rparr>) c ds = (if ds = [] then c else c\<lparr>hasAlerts := False\<rparr>)"
  by (induction ds arbitrary: c) auto

lemma elapse_eq:
  "elapse now c =
     (if \<exists>due \<in> set (alertTimers c). due \<le> now
      then c\<lparr>hasAlerts := False, alertTimers := filter (\<lambda>due. \<not> due \<le> now) (alertTimers c)\<rparr>
      else c\<lparr>alertTimers := filter (\<lambda>due. \<not> due \<le> now) (alertTimers c)\<rparr>)"
  by (auto simp: elapse_def foldl_clear filter_empty_conv)

lemma elapse_history: "historicalData (elapse now c) = historicalData c"
  by (simp add: elapse_eq)

lemma receiving_snoc:
  "receiving (rs @ [(now, data)]) c = onHealthDataReceived now data (elapse now (receiving rs c))"
  by (induction rs c rule: receiving.induct) simp_all

text \<open>
  C6. After the append of a reading at clock time \<open>now\<close>, every retained entry of the history
  has a timestamp later than \<open>now\<close> minus 24 hours; every entry that was there, and the new
  one, is retained if its timestamp is that late (nothing else limits the history); and the
  same bound holds after the last reading of any sequence of readings.
\<close>

theorem history_within_24_hours:
  "(\<forall>item \<in> set (historicalData (onHealthDataReceived now data c)).
       now - 24 * 60 * 60 * 1000 < h_timestamp item)
   \<and> (\<forall>item \<in> set (historicalData c) \<union>
           {\<lparr>h_timestamp = timestamp data, h_heartRate = heartRate data,
             h_oxygenLevel = oxygenLevel data, h_temperature = temperature data\<rparr>}.
        now - 24 * 60 * 60 * 1000 < h_timestamp item \<longrightarrow>
          item \<in> set (historicalData (onHealthDataReceived now data c)))
   \<and> (\<forall>item \<in> set (historicalData (receiving (readings @ [(now, data)]) c)).
        now - 24 * 60 * 60 * 1000 < h_timestamp item)"
  by (auto simp: onHealthDataReceived_history receiving_snoc)

theorem history_within_24_hours_witness:
  "map h_timestamp
     (historicalData
        (receiving ([(0, reading 0 98), (36000000, reading 36000000 98),
                     (72000000, reading 72000000 98)] @ [(108000000, reading 108000000 98)])
           (initialContext 0)))
     = [36000000, 72000000, 108000000]
   \<and> list_all (\<lambda>item. 108000000 - 24 * 60 * 60 * 1000 < h_timestamp item)
       (historicalData
          (receiving ([(0, reading 0 98), (36000000, reading 36000000 98),
                       (72000000, reading 72000000 98)] @ [(108000000, reading 108000000 98)])
             (initialContext 0)))"
proof -
  have kept: "map h_timestamp
     (historicalData
        (receiving ([(0, reading 0 98), (36000000, reading 36000000 98),
                     (72000000, reading 72000000 98)] @ [(108000000, reading 108000000 98)])
           (initialContext 0)))
     = [36000000, 72000000, 108000000]"
    by (simp add: onHealthDataReceived_history elapse_history reading_def initialContext_def)
  note bound = history_within_24_hours
          [of 108000000 "reading 108000000 98" "initialContext 0"
              "[(0, reading 0 98), (36000000, reading 36000000 98),
                (72000000, reading 72000000 98)]", THEN conjunct2, THEN conjunct2,
           unfolded Ball_set]
  from kept bound show ?thesis by (rule conjI)
qed

section \<open>The alert flag\<close>

text \<open>
  C5, as the code has it. A reading that violates a bound sets the flag and schedules one more
  timer, due ten seconds after the reading; a reading that violates none leaves the flag and
  the timers as they are. No timer is ever cancelled or moved: time passing without a timer
  falling due changes nothing, and any timer that falls due clears the flag, whatever has
  been received since it was set. So the flag is cleared ten seconds after each violating
  reading, the first of a series included.
\<close>

theorem alert_flag:
  "(violates data \<longrightarrow>
      hasAlerts (onHealthDataReceived now data c)
      \<and> alertTimers (onHealthDataReceived now data c) = alertTimers c @ [now + 10000])
   \<and> (\<not> violates data \<longrightarrow>
      hasAlerts (onHealthDataReceived now data c) = hasAlerts c
      \<and> alertTimers (onHealthDataReceived now data c) = alertTimers c)
   \<and> (due \<in> set (alertTimers c) \<and> due \<le> later \<longrightarrow> \<not> hasAlerts (elapse later c))
   \<and> ((\<forall>due \<in> set (alertTimers c). later < due) \<longrightarrow> elapse later c = c)"
  by (auto simp: onHealthDataReceived_def Let_def checkForAlerts_violates elapse_eq
           filter_id_conv not_le)

theorem alert_flag_witness:
  "violates (reading 8000 90)
   \<and> hasAlerts (onHealthDataReceived 8000 (reading 8000 90)
        (elapse 8000 (receiving [(0, reading 0 90), (4000, reading 4000 90)] (initialContext 0))))
   \<and> alertTimers (onHealthDataReceived 8000 (reading 8000 90)
        (elapse 8000 (receiving [(0, reading 0 90), (4000, reading 4000 90)] (initialContext 0))))
      = [10000, 14000, 18000]
   \<and> \<not> hasAlerts (elapse 12000
        (receiving [(0, reading 0 90), (4000, reading 4000 90), (8000, reading 8000 90)]
           (initialContext 0)))
   \<and> elapse 9000
        (receiving [(0, reading 0 90), (4000, reading 4000 90), (8000, reading 8000 90)]
           (initialContext 0))
      = receiving [(0, reading 0 90), (4000, reading 4000 90), (8000, reading 8000 90)]
           (initialContext 0)"
  using alert_flag
          [of "reading 8000 90" 8000
              "elapse 8000 (receiving [(0, reading 0 90), (4000, reading 4000 90)]
                              (initialContext 0))" 10000 12000]
        alert_flag
          [of "reading 8000 90" 8000
              "receiving [(0, reading 0 90), (4000, reading 4000 90), (8000, reading 8000 90)]
                 (initialContext 0)" 10000 12000]
        alert_flag
          [of "reading 8000 90" 8000
              "receiving [(0, reading 0 90), (4000, reading 4000 90), (8000, reading 8000 90)]
                 (initialContext 0)" 10000 9000]
  by (simp add: violates_def reading_def onHealthDataReceived_def Let_def
        checkForAlerts_violates elapse_eq initialContext_def)

text \<open>
  C5, as the claim states it, fails: three readings with an oxygen saturation of 90 arrive at
  0 s, 4 s and 8 s. At 12 s the last of them is four seconds old and a flag with a re-armed
  timer would still be set, but the timer of the first reading has cleared the flag at 10 s.
\<close>

theorem alert_flag_cleared_early:
  "hasAlerts (elapse 12000
      (receiving [(0, reading 0 90), (4000, reading 4000 90), (8000, reading 8000 90)]
         (initialContext 0))) = False
   \<and> rearmedFlag [(0, reading 0 90), (4000, reading 4000 90), (8000, reading 8000 90)] 12000
       = True"
  by (simp add: rearmedFlag_def violates_def reading_def onHealthDataReceived_def Let_def
        checkForAlerts_violates elapse_eq initialContext_def)

section \<open>Partial readings and the alert flag\<close>

lemma parseCharacteristic_missing:
  "parseCharacteristic u v = Inr h \<Longrightarrow> p_heartRate h = None \<or> p_oxygenLevel h = None"
  by (auto simp: parseCharacteristic_def emptyHealthData_def split: if_splits sum.splits)

text \<open>
  C10. A packet built from a partial reading in which the heart rate, the temperature or the
  oxygen saturation has not been assigned carries 0 in that field, 0 violates the bound of
  the field, and the context sets its alert flag on receiving the packet.
\<close>

theorem partial_packet_sets_alert:
  assumes "p_heartRate h = None \<or> p_temperature h = None \<or> p_oxygenLevel h = None"
  shows "violates (packetOf h t s) \<and> hasAlerts (onHealthDataReceived now (packetOf h t s) c)"
  using assms
  by (auto simp: onHealthDataReceived_def Let_def checkForAlerts_violates violates_def
        packetOf_def orZero_def)

theorem partial_packet_sets_alert_witness:
  "packetOf (emptyHealthData\<lparr>p_heartRate := Some 72\<rparr>) 2000
       (run [ConnectToDevice ''bracelet'' connectingOk])
     = \<lparr>heartRate = 72, bloodPressureSystolic = 0, bloodPressureDiastolic = 0,
        temperature = 0, oxygenLevel = 0, batteryLevel = 0, timestamp = 2000,
        deviceId = ''bracelet''\<rparr>
   \<and> hasAlerts (onHealthDataReceived 2000
        (packetOf (emptyHealthData\<lparr>p_heartRate := Some 72\<rparr>) 2000
           (run [ConnectToDevice ''bracelet'' connectingOk]))
        (initialContext 0))"
  using partial_packet_sets_alert
          [of "emptyHealthData\<lparr>p_heartRate := Some 72\<rparr>" 2000
              "run [ConnectToDevice ''bracelet'' connectingOk]" 2000 "initialContext 0"]
  by (simp add: emptyHealthData_def packetOf_def orZero_def idOrEmpty_def run_def Let_def
        initialManager_def connectToDevice_def connectingOk_def
        setupHealthDataNotifications_def)

text \<open>
  Every reading that the notification handler emits is such a packet, since the handler fills
  the keys of one characteristic only.
\<close>

lemma every_emitted_reading_sets_alert:
  assumes "effects (snd (handleCharacteristicValue ch t s))
             = effects s @ [Emit (OnHealthDataReceived p)]"
  shows "hasAlerts (onHealthDataReceived now p c)"
proof (cases "val ch")
  case None
  with assms show ?thesis by (simp add: handleCharacteristicValue_def)
next
  case (Some v)
  show ?thesis
  proof (cases "parseCharacteristic (uuid ch) v")
    case (Inl e)
    with Some assms show ?thesis by (simp add: handleCharacteristicValue_def)
  next
    case (Inr h)
    with Some assms have p: "p = packetOf h t s"
      by (simp add: handleCharacteristicValue_def split: if_splits)
    from parseCharacteristic_missing[OF Inr]
    have "p_heartRate h = None \<or> p_temperature h = None \<or> p_oxygenLevel h = None" by auto
    then show ?thesis unfolding p
      by (auto simp: onHealthDataReceived_def Let_def checkForAlerts_violates violates_def
            packetOf_def orZero_def)
  qed
qed

end
